theory Spec2Isabelle
  imports Main "HOL-Library.Word"
begin

section \<open>Errors (errors.go)\<close>

text \<open>
  The struct \<^verbatim>\<open>Error\<close> of errors.go. Of its four fields only \<open>Code\<close> (JSON key
  \<^verbatim>\<open>error\<close>) and \<open>Message\<close> (JSON key \<^verbatim>\<open>message\<close>) are visible to the JSON decoder;
  \<open>StatusCode\<close> and \<open>RawBody\<close> carry the tag \<^verbatim>\<open>json:"-"\<close>.
\<close>

record Error =
  StatusCode :: int
  Code :: string
  Message :: string
  RawBody :: string

text \<open>
  A Go \<^verbatim>\<open>error\<close> interface value that is not nil, by dynamic type:
  \<^item> \<open>ErrorPtr p\<close>: dynamic type \<^verbatim>\<open>*Error\<close>, holding the pointer \<open>p\<close> (\<open>None\<close> is the nil
    pointer, \<open>Some e\<close> points to the struct \<open>e\<close>);
  \<^item> \<open>WrapError prefix err\<close>: the value built by \<^verbatim>\<open>fmt.Errorf(prefix + "%w", err)\<close>;
  \<^item> \<open>OtherError msg\<close>: every other dynamic type (errors of net/http, net/url,
    encoding/json, io, context, and \<^verbatim>\<open>fmt.Errorf\<close> without \<^verbatim>\<open>%w\<close>), named by its message.
  The nil interface value is \<open>None\<close> of \<open>error option\<close>.
\<close>

datatype error =
  ErrorPtr "Error option"
| WrapError string error
| OtherError string

fun IsQPayError :: "error option \<Rightarrow> Error option \<times> bool" where
  "IsQPayError None = (None, False)"
| "IsQPayError (Some (ErrorPtr qErr)) = (qErr, True)"
| "IsQPayError (Some (WrapError prefix err)) = (None, False)"
| "IsQPayError (Some (OtherError msg)) = (None, False)"

text \<open>\<^verbatim>\<open>errors.Unwrap\<close>, for stating what a wrapped error still carries.\<close>

fun Unwrap :: "error \<Rightarrow> error option" where
  "Unwrap (WrapError prefix err) = Some err"
| "Unwrap (ErrorPtr qErr) = None"
| "Unwrap (OtherError msg) = None"

section \<open>Configuration (config.go)\<close>

record Config =
  BaseURL :: string
  Username :: string
  Password :: string
  InvoiceCode :: string
  CallbackURL :: string

text \<open>
  \<^verbatim>\<open>os.Getenv\<close> on a process environment: the value of the variable, the empty string
  when the variable is unset.
\<close>

definition Getenv :: "(string \<rightharpoonup> string) \<Rightarrow> string \<Rightarrow> string" where
  "Getenv environ name = (case environ name of None \<Rightarrow> [] | Some val \<Rightarrow> val)"

definition required :: "Config \<Rightarrow> (string \<rightharpoonup> string)" where
  "required cfg = [
     ''QPAY_BASE_URL'' \<mapsto> BaseURL cfg,
     ''QPAY_USERNAME'' \<mapsto> Username cfg,
     ''QPAY_PASSWORD'' \<mapsto> Password cfg,
     ''QPAY_INVOICE_CODE'' \<mapsto> InvoiceCode cfg,
     ''QPAY_CALLBACK_URL'' \<mapsto> CallbackURL cfg]"

text \<open>
  The loop \<^verbatim>\<open>for name, val := range required\<close>. Go leaves the iteration order of a map
  unspecified, so the order \<open>names\<close> in which the keys are visited is an argument; the
  loop returns at the first visited key whose value is empty.
\<close>

fun range_required :: "(string \<rightharpoonup> string) \<Rightarrow> string list \<Rightarrow> error option" where
  "range_required m [] = None"
| "range_required m (name # names) =
     (case m name of
        None \<Rightarrow> range_required m names
      | Some val \<Rightarrow>
          if val = [] then
            Some (OtherError (''required environment variable '' @ name @ '' is not set''))
          else range_required m names)"

definition LoadConfigFromEnv :: "(string \<rightharpoonup> string) \<Rightarrow> string list \<Rightarrow> error + Config" where
  "LoadConfigFromEnv environ names =
     (let cfg = \<lparr>BaseURL = Getenv environ ''QPAY_BASE_URL'',
                 Username = Getenv environ ''QPAY_USERNAME'',
                 Password = Getenv environ ''QPAY_PASSWORD'',
                 InvoiceCode = Getenv environ ''QPAY_INVOICE_CODE'',
                 CallbackURL = Getenv environ ''QPAY_CALLBACK_URL''\<rparr>
      in case range_required (required cfg) names of
           Some err \<Rightarrow> Inl err
         | None \<Rightarrow> Inr cfg)"

text \<open>The \<open>Config\<close> that \<open>LoadConfigFromEnv\<close> builds from the environment.\<close>

definition env_cfg :: "(string \<rightharpoonup> string) \<Rightarrow> Config" where
  "env_cfg environ = \<lparr>BaseURL = Getenv environ ''QPAY_BASE_URL'',
                 Username = Getenv environ ''QPAY_USERNAME'',
                 Password = Getenv environ ''QPAY_PASSWORD'',
                 InvoiceCode = Getenv environ ''QPAY_INVOICE_CODE'',
                 CallbackURL = Getenv environ ''QPAY_CALLBACK_URL''\<rparr>"

text \<open>The five variable names, and what a legal iteration order of \<open>required\<close> is.\<close>

definition required_names :: "string list" where
  "required_names = [''QPAY_BASE_URL'', ''QPAY_USERNAME'', ''QPAY_PASSWORD'',
     ''QPAY_INVOICE_CODE'', ''QPAY_CALLBACK_URL'']"

definition iteration_order :: "string list \<Rightarrow> bool" where
  "iteration_order names \<longleftrightarrow> distinct names \<and> set names = set required_names"

section \<open>Token response (models)\<close>

record TokenResponse =
  TokenType :: string
  RefreshExpiresIn :: "64 word"
  RefreshToken :: string
  AccessToken :: string
  ExpiresIn :: "64 word"
  Scope :: string
  NotBeforePolicy :: string
  SessionState :: string

text \<open>The zero value of \<^verbatim>\<open>var token TokenResponse\<close>.\<close>

definition zero_TokenResponse :: TokenResponse where
  "zero_TokenResponse = \<lparr>TokenType = [], RefreshExpiresIn = 0, RefreshToken = [],
     AccessToken = [], ExpiresIn = 0, Scope = [], NotBeforePolicy = [], SessionState = []\<rparr>"

section \<open>The client and its environment (client.go)\<close>

text \<open>
  An outgoing request as the code builds it: method, URL, the marshalled body if any, and
  the header operations applied to it in order (\<open>Set k v\<close> for \<^verbatim>\<open>req.Header.Set(k, v)\<close>,
  \<open>SetBasicAuth u p\<close> for \<^verbatim>\<open>req.SetBasicAuth(u, p)\<close>).
\<close>

datatype header = Set string string | SetBasicAuth string string

record request =
  Method :: string
  URL :: string
  Body :: "string option"
  Headers :: "header list"

text \<open>
  What \<^verbatim>\<open>c.http.Do(req)\<close> followed by \<^verbatim>\<open>io.ReadAll(resp.Body)\<close> yields: \<open>DoFails\<close> when
  \<^verbatim>\<open>Do\<close> returns an error (connection failure, timeout, cancellation), \<open>ReadFails\<close> when
  the status line arrived and reading the body fails, \<open>Response\<close> with status code and
  body otherwise.
\<close>

datatype http_result =
  DoFails error
| ReadFails int error
| Response int string

text \<open>
  The effects of a run, in order: operations on the mutex \<^verbatim>\<open>c.mu\<close>, reads and writes of
  the four token fields, and requests handed to \<^verbatim>\<open>c.http.Do\<close>.
\<close>

datatype field = F_accessToken | F_refreshToken | F_expiresAt | F_refreshExpiresAt

datatype event = Lock | Unlock | Read field | Write field | Send request

text \<open>
  The struct \<^verbatim>\<open>Client\<close>. The fields \<^verbatim>\<open>http\<close> and \<^verbatim>\<open>mu\<close> appear through their effects:
  \<open>trace\<close> lists the effects of the run so far, and the executor's answers come from
  \<open>Do\<close> of the environment below. The time values are Go's \<^verbatim>\<open>int64\<close>.
\<close>

record Client =
  config :: Config
  accessToken :: string
  refreshToken :: string
  expiresAt :: "64 word"
  refreshExpiresAt :: "64 word"
  trace :: "event list"

text \<open>
  The library functions the client calls, as parameters:
  \<^item> \<open>NewRequest method url\<close>: the error of \<^verbatim>\<open>http.NewRequestWithContext\<close>, if it fails
    (nil context, malformed URL);
  \<^item> \<open>Do sent req\<close>: the outcome of the exchange for \<open>req\<close>, which may depend on the
    requests \<open>sent\<close> before it;
  \<^item> \<open>StatusText\<close>: \<^verbatim>\<open>http.StatusText\<close>;
  \<^item> \<open>Unmarshal_Error body\<close>: what \<^verbatim>\<open>json.Unmarshal(body, qErr)\<close> assigns to \<open>Code\<close> and to
    \<open>Message\<close>; \<open>None\<close> where it assigns nothing (the body is not valid JSON, or the key
    is absent, null or not a string);
  \<^item> \<open>Unmarshal_Token body token\<close>: \<^verbatim>\<open>json.Unmarshal(body, &token)\<close>, the error or the
    decoded value.
\<close>

record env =
  NewRequest :: "string \<Rightarrow> string \<Rightarrow> error option"
  Do :: "request list \<Rightarrow> request \<Rightarrow> http_result"
  StatusText :: "int \<Rightarrow> string"
  Unmarshal_Error :: "string \<Rightarrow> string option \<times> string option"
  Unmarshal_Token :: "string \<Rightarrow> TokenResponse \<Rightarrow> error + TokenResponse"

definition tokenBufferSeconds :: "64 word" where
  "tokenBufferSeconds = 30"

definition NewClient :: "Config \<Rightarrow> Client" where
  "NewClient cfg = \<lparr>config = cfg, accessToken = [], refreshToken = [],
     expiresAt = 0, refreshExpiresAt = 0, trace = []\<rparr>"

definition emit :: "event list \<Rightarrow> Client \<Rightarrow> Client" where
  "emit es c = c\<lparr>trace := trace c @ es\<rparr>"

text \<open>The requests handed to the executor so far.\<close>

fun sends :: "event list \<Rightarrow> request list" where
  "sends [] = []"
| "sends (Send req # es) = req # sends es"
| "sends (e # es) = sends es"

text \<open>\<^verbatim>\<open>_ = json.Unmarshal(respBody, qErr)\<close>: the decoder's error is dropped.\<close>

definition json_Unmarshal_Error :: "env \<Rightarrow> string \<Rightarrow> Error \<Rightarrow> Error" where
  "json_Unmarshal_Error E respBody qErr =
     (case Unmarshal_Error E respBody of
        (code, message) \<Rightarrow>
          qErr\<lparr>Code := (case code of None \<Rightarrow> Code qErr | Some v \<Rightarrow> v),
               Message := (case message of None \<Rightarrow> Message qErr | Some v \<Rightarrow> v)\<rparr>)"

definition storeToken :: "TokenResponse \<Rightarrow> Client \<Rightarrow> Client" where
  "storeToken token c =
     emit [Write F_accessToken, Write F_refreshToken, Write F_expiresAt, Write F_refreshExpiresAt]
       (c\<lparr>accessToken := AccessToken token,
          refreshToken := RefreshToken token,
          expiresAt := ExpiresIn token,
          refreshExpiresAt := RefreshExpiresIn token\<rparr>)"

definition doRefreshTokenHTTP :: "env \<Rightarrow> string \<Rightarrow> Client \<Rightarrow> (error + TokenResponse) \<times> Client" where
  "doRefreshTokenHTTP E refreshTok c =
     (let url = BaseURL (config c) @ ''/v2/auth/refresh'' in
      case NewRequest E ''POST'' url of
        Some err \<Rightarrow> (Inl err, c)
      | None \<Rightarrow>
          (let req = \<lparr>Method = ''POST'', URL = url, Body = None,
                      Headers = [Set ''Authorization'' (''Bearer '' @ refreshTok)]\<rparr>;
               c' = emit [Send req] c
           in case Do E (sends (trace c)) req of
                DoFails err \<Rightarrow> (Inl err, c')
              | ReadFails status err \<Rightarrow> (Inl err, c')
              | Response status respBody \<Rightarrow>
                  if status < 200 \<or> status \<ge> 300 then
                    (let qErr = \<lparr>StatusCode = status, Code = [], Message = [], RawBody = respBody\<rparr>;
                         qErr = json_Unmarshal_Error E respBody qErr
                     in (Inl (ErrorPtr (Some qErr)), c'))
                  else
                    (case Unmarshal_Token E respBody zero_TokenResponse of
                       Inl err \<Rightarrow> (Inl err, c')
                     | Inr token \<Rightarrow> (Inr token, c'))))"

text \<open>
  \<open>doBasicAuthRequest\<close>; \<open>result\<close> is the destination (\<open>None\<close> for a nil \<^verbatim>\<open>result\<close>,
  \<open>Some r\<close> for a pointer to \<open>r\<close>) with its decoder \<open>unmarshal\<close>; on success the function
  returns what the destination then holds.
\<close>

definition doBasicAuthRequest ::
  "env \<Rightarrow> string \<Rightarrow> string \<Rightarrow> (string \<Rightarrow> 'r \<Rightarrow> error + 'r) \<Rightarrow> 'r option \<Rightarrow> Client
    \<Rightarrow> (error + 'r option) \<times> Client" where
  "doBasicAuthRequest E method path unmarshal result c =
     (let url = BaseURL (config c) @ path in
      case NewRequest E method url of
        Some err \<Rightarrow> (Inl (WrapError ''failed to create request: '' err), c)
      | None \<Rightarrow>
          (let req = \<lparr>Method = method, URL = url, Body = None,
                      Headers = [SetBasicAuth (Username (config c)) (Password (config c))]\<rparr>;
               c' = emit [Send req] c
           in case Do E (sends (trace c)) req of
                DoFails err \<Rightarrow> (Inl (WrapError ''request failed: '' err), c')
              | ReadFails status err \<Rightarrow> (Inl (WrapError ''failed to read response body: '' err), c')
              | Response status respBody \<Rightarrow>
                  if status < 200 \<or> status \<ge> 300 then
                    (let qErr = \<lparr>StatusCode = status, Code = [], Message = [], RawBody = respBody\<rparr>;
                         qErr = json_Unmarshal_Error E respBody qErr;
                         qErr = (if Code qErr = [] then qErr\<lparr>Code := StatusText E status\<rparr> else qErr);
                         qErr = (if Message qErr = [] then qErr\<lparr>Message := respBody\<rparr> else qErr)
                     in (Inl (ErrorPtr (Some qErr)), c'))
                  else
                    (case result of
                       None \<Rightarrow> (Inr None, c')
                     | Some r \<Rightarrow>
                         if length respBody > 0 then
                           (case unmarshal respBody r of
                              Inl err \<Rightarrow> (Inl (WrapError ''failed to unmarshal response: '' err), c')
                            | Inr r' \<Rightarrow> (Inr (Some r'), c'))
                         else (Inr (Some r), c'))))"

definition getTokenRequest :: "env \<Rightarrow> Client \<Rightarrow> (error + TokenResponse) \<times> Client" where
  "getTokenRequest E c =
     (case doBasicAuthRequest E ''POST'' ''/v2/auth/token'' (Unmarshal_Token E)
             (Some zero_TokenResponse) c of
        (Inl err, c') \<Rightarrow> (Inl err, c')
      | (Inr token, c') \<Rightarrow> (Inr (case token of Some t \<Rightarrow> t | None \<Rightarrow> zero_TokenResponse), c'))"

text \<open>
  \<open>ensureToken\<close>, in the two parts of its body; \<open>now\<close> is the value of
  \<^verbatim>\<open>time.Now().Unix()\<close>. The comparisons are signed ones on \<^verbatim>\<open>int64\<close> and the
  subtractions wrap around, as Go's do. The conjunctions of the source evaluate their right
  operand only when the left one holds, so the expiry fields are read only then.

  \<open>ensureToken_reuse\<close> is the body down to the end of \<^verbatim>\<open>if canRefresh { ... }\<close>: the
  check of the stored access token and the refresh attempt. Its result is \<open>(True, c')\<close>
  when \<open>ensureToken\<close> returns nil there, and \<open>(False, c')\<close> when control goes on to the
  full authentication, the rest of the body, which \<open>ensureToken\<close> adds.
\<close>

definition ensureToken_reuse :: "env \<Rightarrow> 64 word \<Rightarrow> Client \<Rightarrow> bool \<times> Client" where
  "ensureToken_reuse E now c =
     (let c1 = emit ([Lock, Read F_accessToken] @
                     (if accessToken c \<noteq> [] then [Read F_expiresAt] else [])) c
      in
      if accessToken c \<noteq> [] \<and> now <s expiresAt c - tokenBufferSeconds then
        (True, emit [Unlock] c1)
      else
        (let canRefresh = (refreshToken c \<noteq> [] \<and> now <s refreshExpiresAt c - tokenBufferSeconds);
             refreshTok = refreshToken c;
             c2 = emit ([Read F_refreshToken] @
                        (if refreshToken c \<noteq> [] then [Read F_refreshExpiresAt] else []) @
                        [Read F_refreshToken, Unlock]) c1
         in
         if canRefresh then
           (case doRefreshTokenHTTP E refreshTok c2 of
              (Inr token, c3) \<Rightarrow> (True, emit [Unlock] (storeToken token (emit [Lock] c3)))
            | (Inl err, c3) \<Rightarrow> (False, c3))
         else (False, c2)))"

definition ensureToken :: "env \<Rightarrow> 64 word \<Rightarrow> Client \<Rightarrow> error option \<times> Client" where
  "ensureToken E now c =
     (case ensureToken_reuse E now c of
        (True, c') \<Rightarrow> (None, c')
      | (False, c') \<Rightarrow>
          (case getTokenRequest E c' of
             (Inl err, c4) \<Rightarrow> (Some (WrapError ''failed to get token: '' err), c4)
           | (Inr token, c4) \<Rightarrow> (None, emit [Unlock] (storeToken token (emit [Lock] c4)))))"

text \<open>
  The exported methods \<^verbatim>\<open>GetToken\<close> and \<^verbatim>\<open>RefreshToken\<close> of the client; the second
  is \<open>Client_RefreshToken\<close> here, \<open>RefreshToken\<close> being a field of \<open>TokenResponse\<close>.
\<close>

definition GetToken :: "env \<Rightarrow> Client \<Rightarrow> (error + TokenResponse) \<times> Client" where
  "GetToken E c =
     (case getTokenRequest E c of
        (Inl err, c') \<Rightarrow> (Inl err, c')
      | (Inr token, c') \<Rightarrow> (Inr token, emit [Unlock] (storeToken token (emit [Lock] c'))))"

definition Client_RefreshToken :: "env \<Rightarrow> Client \<Rightarrow> (error + TokenResponse) \<times> Client" where
  "Client_RefreshToken E c =
     (let c1 = emit [Lock, Read F_refreshToken, Unlock] c;
          refreshTok = refreshToken c
      in case doRefreshTokenHTTP E refreshTok c1 of
           (Inl err, c') \<Rightarrow> (Inl err, c')
         | (Inr token, c') \<Rightarrow> (Inr token, emit [Unlock] (storeToken token (emit [Lock] c'))))"

text \<open>
  The block \<^verbatim>\<open>if body != nil { data, err := json.Marshal(body) ... }\<close> of \<open>doRequest\<close>:
  the error of the encoder, or the body to send (\<open>None\<close> while \<^verbatim>\<open>bodyReader\<close> stays nil).
\<close>

definition marshal_body :: "('b \<Rightarrow> error + string) \<Rightarrow> 'b option \<Rightarrow> error + string option" where
  "marshal_body marshal body =
     (case body of
        None \<Rightarrow> Inr None
      | Some b \<Rightarrow> (case marshal b of Inl err \<Rightarrow> Inl err | Inr data \<Rightarrow> Inr (Some data)))"

text \<open>
  \<open>doRequest\<close>; \<open>body\<close> is \<open>None\<close> for a nil body and comes with its encoder \<open>marshal\<close>
  (\<^verbatim>\<open>json.Marshal\<close>), \<open>result\<close> is the destination with its decoder \<open>unmarshal\<close>, as in
  \<open>doBasicAuthRequest\<close>. The access token put into the header is read from the client
  after \<open>ensureToken\<close> has returned.
\<close>

definition doRequest ::
  "env \<Rightarrow> 64 word \<Rightarrow> string \<Rightarrow> string \<Rightarrow> ('b \<Rightarrow> error + string) \<Rightarrow> 'b option
    \<Rightarrow> (string \<Rightarrow> 'r \<Rightarrow> error + 'r) \<Rightarrow> 'r option \<Rightarrow> Client
    \<Rightarrow> (error + 'r option) \<times> Client" where
  "doRequest E now method path marshal body unmarshal result c0 =
     (case ensureToken E now c0 of
        (Some err, c) \<Rightarrow> (Inl err, c)
      | (None, c) \<Rightarrow>
          (case marshal_body marshal body of
             Inl err \<Rightarrow> (Inl (WrapError ''failed to marshal request body: '' err), c)
           | Inr bodyReader \<Rightarrow>
               (let url = BaseURL (config c) @ path in
                case NewRequest E method url of
                  Some err \<Rightarrow> (Inl (WrapError ''failed to create request: '' err), c)
                | None \<Rightarrow>
                    (let c1 = emit [Read F_accessToken] c;
                         req = \<lparr>Method = method, URL = url, Body = bodyReader,
                                Headers = [Set ''Content-Type'' ''application/json'',
                                           Set ''Authorization'' (''Bearer '' @ accessToken c)]\<rparr>;
                         c' = emit [Send req] c1
                     in case Do E (sends (trace c1)) req of
                          DoFails err \<Rightarrow> (Inl (WrapError ''request failed: '' err), c')
                        | ReadFails status err \<Rightarrow>
                            (Inl (WrapError ''failed to read response body: '' err), c')
                        | Response status respBody \<Rightarrow>
                            if status < 200 \<or> status \<ge> 300 then
                              (let qErr = \<lparr>StatusCode = status, Code = [], Message = [],
                                           RawBody = respBody\<rparr>;
                                   qErr = json_Unmarshal_Error E respBody qErr;
                                   qErr = (if Code qErr = [] then qErr\<lparr>Code := StatusText E status\<rparr>
                                           else qErr);
                                   qErr = (if Message qErr = [] then qErr\<lparr>Message := respBody\<rparr>
                                           else qErr)
                               in (Inl (ErrorPtr (Some qErr)), c'))
                            else
                              (case result of
                                 None \<Rightarrow> (Inr None, c')
                               | Some r \<Rightarrow>
                                   if length respBody > 0 then
                                     (case unmarshal respBody r of
                                        Inl err \<Rightarrow>
                                          (Inl (WrapError ''failed to unmarshal response: '' err), c')
                                      | Inr r' \<Rightarrow> (Inr (Some r'), c'))
                                   else (Inr (Some r), c'))))))"

text \<open>
  Two of the domain operations, over any request and response types: \<open>CreateInvoice\<close>
  (the body \<open>req\<close> and a destination, whose zero value is \<open>resp\<close>) and \<open>GetPayment\<close>
  (a nil body).
\<close>

definition CreateInvoice ::
  "env \<Rightarrow> 64 word \<Rightarrow> ('b \<Rightarrow> error + string) \<Rightarrow> (string \<Rightarrow> 'r \<Rightarrow> error + 'r) \<Rightarrow> 'r
    \<Rightarrow> 'b \<Rightarrow> Client \<Rightarrow> (error + 'r) \<times> Client" where
  "CreateInvoice E now marshal unmarshal resp req c =
     (case doRequest E now ''POST'' ''/v2/invoice'' marshal (Some req) unmarshal (Some resp) c of
        (Inl err, c') \<Rightarrow> (Inl err, c')
      | (Inr r, c') \<Rightarrow> (Inr (case r of Some v \<Rightarrow> v | None \<Rightarrow> resp), c'))"

text \<open>The encoder of a call whose body is nil: \<open>doRequest\<close> never applies it.\<close>

definition marshal_nil :: "unit \<Rightarrow> error + string" where
  "marshal_nil b = Inr []"

definition GetPayment ::
  "env \<Rightarrow> 64 word \<Rightarrow> (string \<Rightarrow> 'r \<Rightarrow> error + 'r) \<Rightarrow> 'r
    \<Rightarrow> string \<Rightarrow> Client \<Rightarrow> (error + 'r) \<times> Client" where
  "GetPayment E now unmarshal resp paymentID c =
     (case doRequest E now ''GET'' (''/v2/payment/'' @ paymentID) marshal_nil None
             unmarshal (Some resp) c of
        (Inl err, c') \<Rightarrow> (Inl err, c')
      | (Inr r, c') \<Rightarrow> (Inr (case r of Some v \<Rightarrow> v | None \<Rightarrow> resp), c'))"


section \<open>Notions used in the statements\<close>

text \<open>The four token fields of a client.\<close>

definition token_state :: "Client \<Rightarrow> string \<times> string \<times> 64 word \<times> 64 word" where
  "token_state c = (accessToken c, refreshToken c, expiresAt c, refreshExpiresAt c)"

definition token_fields :: "TokenResponse \<Rightarrow> string \<times> string \<times> 64 word \<times> 64 word" where
  "token_fields token = (AccessToken token, RefreshToken token, ExpiresIn token, RefreshExpiresIn token)"

text \<open>The two checks of \<open>ensureToken\<close>, as the source writes them.\<close>

definition access_fresh :: "64 word \<Rightarrow> Client \<Rightarrow> bool" where
  "access_fresh now c \<longleftrightarrow> accessToken c \<noteq> [] \<and> now <s expiresAt c - tokenBufferSeconds"

definition canRefresh :: "64 word \<Rightarrow> Client \<Rightarrow> bool" where
  "canRefresh now c \<longleftrightarrow> refreshToken c \<noteq> [] \<and> now <s refreshExpiresAt c - tokenBufferSeconds"

text \<open>The request of the refresh call and the request of the full authentication.\<close>

definition refresh_request :: "Client \<Rightarrow> request" where
  "refresh_request c = \<lparr>Method = ''POST'', URL = BaseURL (config c) @ ''/v2/auth/refresh'',
     Body = None, Headers = [Set ''Authorization'' (''Bearer '' @ refreshToken c)]\<rparr>"

definition token_request :: "Client \<Rightarrow> request" where
  "token_request c = \<lparr>Method = ''POST'', URL = BaseURL (config c) @ ''/v2/auth/token'',
     Body = None, Headers = [SetBasicAuth (Username (config c)) (Password (config c))]\<rparr>"

text \<open>The request of a domain operation; \<open>c\<close> is the client after \<open>ensureToken\<close>.\<close>

definition domain_request :: "string \<Rightarrow> string \<Rightarrow> string option \<Rightarrow> Client \<Rightarrow> request" where
  "domain_request method path bodyReader c =
     \<lparr>Method = method, URL = BaseURL (config c) @ path, Body = bodyReader,
      Headers = [Set ''Content-Type'' ''application/json'',
                 Set ''Authorization'' (''Bearer '' @ accessToken c)]\<rparr>"

text \<open>
  What each of the two steps hands to the executor: its request, when
  \<^verbatim>\<open>http.NewRequestWithContext\<close> builds it, and nothing when that fails.
\<close>

definition refresh_sent :: "env \<Rightarrow> Client \<Rightarrow> request list" where
  "refresh_sent E c =
     (if NewRequest E ''POST'' (BaseURL (config c) @ ''/v2/auth/refresh'') = None
      then [refresh_request c] else [])"

definition token_sent :: "env \<Rightarrow> Client \<Rightarrow> request list" where
  "token_sent E c =
     (if NewRequest E ''POST'' (BaseURL (config c) @ ''/v2/auth/token'') = None
      then [token_request c] else [])"

text \<open>
  The requests a call that starts with \<open>c\<close> and ends with \<open>c'\<close> has handed to the
  executor: \<open>c'\<close> has sent the requests of \<open>c\<close> followed by \<open>reqs\<close>.
\<close>

definition sent_between :: "Client \<Rightarrow> Client \<Rightarrow> request list \<Rightarrow> bool" where
  "sent_between c c' reqs \<longleftrightarrow> sends (trace c') = sends (trace c) @ reqs"

text \<open>
  The events of \<open>ensureToken\<close> from its start to the \<^verbatim>\<open>Unlock\<close> before the refresh call,
  on the path where the refresh call is made (both refresh fields are read there).
\<close>

definition pre_refresh :: "Client \<Rightarrow> event list" where
  "pre_refresh c = [Lock, Read F_accessToken] @
     (if accessToken c \<noteq> [] then [Read F_expiresAt] else []) @
     [Read F_refreshToken, Read F_refreshExpiresAt, Read F_refreshToken, Unlock]"

text \<open>A sequence of \<open>ensureToken\<close> calls on one client, at the given clock values.\<close>

fun ensureToken_calls :: "env \<Rightarrow> 64 word list \<Rightarrow> Client \<Rightarrow> error option list \<times> Client" where
  "ensureToken_calls E [] c = ([], c)"
| "ensureToken_calls E (now # nows) c =
     (case ensureToken E now c of
        (r, c') \<Rightarrow> (case ensureToken_calls E nows c' of (rs, c'') \<Rightarrow> (r # rs, c'')))"

text \<open>
  The locking discipline on a trace. \<open>discipline held es\<close> runs the events \<open>es\<close> from a
  mutex that is held or not, and gives the state of the mutex at the end, or \<open>None\<close> when
  an event breaks the discipline: a token field read or written, or the mutex unlocked,
  while the mutex is not held; the mutex locked again, or a request sent, while it is held.
\<close>

fun discipline :: "bool \<Rightarrow> event list \<Rightarrow> bool option" where
  "discipline held [] = Some held"
| "discipline held (Lock # es) = (if held then None else discipline True es)"
| "discipline held (Unlock # es) = (if held then discipline False es else None)"
| "discipline held (Read f # es) = (if held then discipline held es else None)"
| "discipline held (Write f # es) = (if held then discipline held es else None)"
| "discipline held (Send req # es) = (if held then None else discipline held es)"

section \<open>A sample environment\<close>

text \<open>
  A server in the manner of the repository's tests, for evaluating the client on concrete
  inputs. \<open>StatusText_sample\<close> is a part of the table of net/http; the two decoders
  stand for encoding/json on the bodies this server sends.
\<close>

definition StatusText_sample :: "int \<Rightarrow> string" where
  "StatusText_sample status =
     (if status = 400 then ''Bad Request''
      else if status = 401 then ''Unauthorized''
      else if status = 404 then ''Not Found''
      else if status = 500 then ''Internal Server Error''
      else [])"

definition token_abc :: TokenResponse where
  "token_abc = \<lparr>TokenType = ''Bearer'', RefreshExpiresIn = 1700007200, RefreshToken = ''refresh-xyz'',
     AccessToken = ''access-abc'', ExpiresIn = 1700003600, Scope = [], NotBeforePolicy = [],
     SessionState = []\<rparr>"

definition token_new :: TokenResponse where
  "token_new = \<lparr>TokenType = ''Bearer'', RefreshExpiresIn = 1700010800, RefreshToken = ''refresh-new'',
     AccessToken = ''access-new'', ExpiresIn = 1700007200, Scope = [], NotBeforePolicy = [],
     SessionState = []\<rparr>"

text \<open>The bodies that the sample servers send.\<close>

definition body_token_abc :: string where
  \<open>body_token_abc = ''{"access_token":"access-abc","refresh_token":"refresh-xyz","expires_in":1700003600,"refresh_expires_in":1700007200,"token_type":"Bearer"}''\<close>

definition body_token_new :: string where
  \<open>body_token_new = ''{"access_token":"access-new","refresh_token":"refresh-new","expires_in":1700007200,"refresh_expires_in":1700010800,"token_type":"Bearer"}''\<close>

definition body_invalid_grant :: string where
  \<open>body_invalid_grant = ''{"error":"invalid_grant"}''\<close>

definition body_invoice_notfound :: string where
  \<open>body_invoice_notfound = ''{"error":"INVOICE_NOTFOUND","message":"Invoice not found"}''\<close>

definition body_authentication_failed :: string where
  \<open>body_authentication_failed = ''{"error":"AUTHENTICATION_FAILED","message":"Invalid username or password"}''\<close>

definition Unmarshal_Token_sample :: "string \<Rightarrow> TokenResponse \<Rightarrow> error + TokenResponse" where
  "Unmarshal_Token_sample body token =
     (if body = [] then Inl (OtherError ''unexpected end of JSON input'')
      else if body = body_token_abc then Inr token_abc
      else if body = body_token_new then Inr token_new
      else Inl (OtherError ''invalid character''))"

definition Unmarshal_Error_sample :: "string \<Rightarrow> string option \<times> string option" where
  "Unmarshal_Error_sample body =
     (if body = body_invalid_grant then (Some ''invalid_grant'', None)
      else if body = body_invoice_notfound
        then (Some ''INVOICE_NOTFOUND'', Some ''Invoice not found'')
      else if body = body_authentication_failed
        then (Some ''AUTHENTICATION_FAILED'', Some ''Invalid username or password'')
      else (None, None))"

text \<open>A decoder for the destination of a domain operation: it keeps the body as text.\<close>

definition Unmarshal_raw :: "string \<Rightarrow> string \<Rightarrow> error + string" where
  "Unmarshal_raw body r = Inr body"

text \<open>
  The servers: each answers by the path of the request. \<open>server_ok\<close> issues tokens and
  answers every other path with 200 and an empty object; \<open>server_refresh_401\<close> differs by
  refusing the refresh; \<open>server_auth_401\<close> refuses the authentication; \<open>server_500\<close>
  answers every request with a plain-text 500; \<open>server_404\<close> issues tokens and answers
  every other path with a 404 whose body names the error.
\<close>

definition cfg_sample :: Config where
  "cfg_sample = \<lparr>BaseURL = ''http://srv'', Username = ''testuser'', Password = ''testpass'',
     InvoiceCode = ''INV'', CallbackURL = ''http://cb''\<rparr>"

definition server_ok :: "request list \<Rightarrow> request \<Rightarrow> http_result" where
  "server_ok sent req =
     (if URL req = ''http://srv/v2/auth/token'' then Response 200 body_token_abc
      else if URL req = ''http://srv/v2/auth/refresh'' then Response 200 body_token_new
      else Response 200 ''{}'')"

definition server_refresh_401 :: "request list \<Rightarrow> request \<Rightarrow> http_result" where
  "server_refresh_401 sent req =
     (if URL req = ''http://srv/v2/auth/refresh'' then Response 401 body_invalid_grant
      else server_ok sent req)"

definition server_auth_401 :: "request list \<Rightarrow> request \<Rightarrow> http_result" where
  "server_auth_401 sent req =
     Response 401 body_authentication_failed"

definition server_500 :: "request list \<Rightarrow> request \<Rightarrow> http_result" where
  "server_500 sent req = Response 500 ''Internal Server Error''"

definition server_404 :: "request list \<Rightarrow> request \<Rightarrow> http_result" where
  "server_404 sent req =
     (if URL req = ''http://srv/v2/auth/token'' then Response 200 body_token_abc
      else Response 404 body_invoice_notfound)"

text \<open>\<open>server_empty\<close> answers every request with 200 and an empty body.\<close>

definition server_empty :: "request list \<Rightarrow> request \<Rightarrow> http_result" where
  "server_empty sent req = Response 200 []"

text \<open>\<open>server_down\<close> cannot be reached.\<close>

definition server_down :: "request list \<Rightarrow> request \<Rightarrow> http_result" where
  "server_down sent req = DoFails (OtherError ''connection refused'')"

definition env_sample :: "(request list \<Rightarrow> request \<Rightarrow> http_result) \<Rightarrow> env" where
  "env_sample server = \<lparr>NewRequest = (\<lambda>method url. None), Do = server,
     StatusText = StatusText_sample, Unmarshal_Error = Unmarshal_Error_sample,
     Unmarshal_Token = Unmarshal_Token_sample\<rparr>"

text \<open>The error that \<open>server_auth_401\<close> makes the client build.\<close>

definition error_401 :: Error where
  "error_401 = \<lparr>StatusCode = 401, Code = ''AUTHENTICATION_FAILED'',
     Message = ''Invalid username or password'',
     RawBody = body_authentication_failed\<rparr>"

text \<open>The error that \<open>server_404\<close> makes the client build.\<close>

definition error_404 :: Error where
  "error_404 = \<lparr>StatusCode = 404, Code = ''INVOICE_NOTFOUND'', Message = ''Invoice not found'',
     RawBody = body_invoice_notfound\<rparr>"

text \<open>A client holding an expired access token and a refresh token that is still valid.\<close>

definition client_expired :: Client where
  "client_expired = \<lparr>config = cfg_sample, accessToken = ''access-old'',
     refreshToken = ''refresh-old'', expiresAt = 1699999900, refreshExpiresAt = 1700007200,
     trace = []\<rparr>"

text \<open>A client holding a valid access token.\<close>

definition client_valid :: Client where
  "client_valid = \<lparr>config = cfg_sample, accessToken = ''access-abc'',
     refreshToken = ''refresh-xyz'', expiresAt = 1700003600, refreshExpiresAt = 1700007200,
     trace = []\<rparr>"

definition environ_sample :: "string \<rightharpoonup> string" where
  "environ_sample = [''QPAY_BASE_URL'' \<mapsto> ''https://merchant.qpay.mn'',
     ''QPAY_USERNAME'' \<mapsto> ''testuser'', ''QPAY_PASSWORD'' \<mapsto> ''testpass'',
     ''QPAY_INVOICE_CODE'' \<mapsto> ''INV_CODE'',
     ''QPAY_CALLBACK_URL'' \<mapsto> ''https://example.com/callback'']"


section \<open>Basic facts\<close>

lemma emit_simps [simp]:
  "config (emit es c) = config c"
  "accessToken (emit es c) = accessToken c"
  "refreshToken (emit es c) = refreshToken c"
  "expiresAt (emit es c) = expiresAt c"
  "refreshExpiresAt (emit es c) = refreshExpiresAt c"
  "trace (emit es c) = trace c @ es"
  by (simp_all add: emit_def)

lemma emit_emit [simp]: "emit es (emit es' c) = emit (es' @ es) c"
  by (simp add: emit_def)

lemma emit_Nil [simp]: "emit [] c = c"
  by (simp add: emit_def)

lemma sends_append [simp]: "sends (xs @ ys) = sends xs @ sends ys"
  by (induction xs rule: sends.induct) simp_all

lemma token_state_emit [simp]: "token_state (emit es c) = token_state c"
  by (simp add: token_state_def)

lemma storeToken_simps [simp]:
  "config (storeToken token c) = config c"
  "token_state (storeToken token c) = token_fields token"
  "trace (storeToken token c) = trace c @
     [Write F_accessToken, Write F_refreshToken, Write F_expiresAt, Write F_refreshExpiresAt]"
  by (simp_all add: storeToken_def token_state_def token_fields_def)

lemma access_fresh_emit [simp]: "access_fresh now (emit es c) = access_fresh now c"
  by (simp add: access_fresh_def)

lemma canRefresh_emit [simp]: "canRefresh now (emit es c) = canRefresh now c"
  by (simp add: canRefresh_def)

lemma sends_pre_refresh [simp]: "sends (pre_refresh c) = []"
  by (simp add: pre_refresh_def)

subsection \<open>The two network steps\<close>

text \<open>
  Each step leaves the client as it was, but for the request it has sent, and its outcome
  does not depend on events other than the requests sent before.
\<close>

lemma doRefreshTokenHTTP_snd:
  "snd (doRefreshTokenHTTP E rt c) =
     emit (if NewRequest E ''POST'' (BaseURL (config c) @ ''/v2/auth/refresh'') = None
           then [Send \<lparr>Method = ''POST'', URL = BaseURL (config c) @ ''/v2/auth/refresh'',
                   Body = None, Headers = [Set ''Authorization'' (''Bearer '' @ rt)]\<rparr>]
           else []) c"
  by (simp add: doRefreshTokenHTTP_def Let_def
      split: option.splits http_result.splits sum.splits)

lemma doRefreshTokenHTTP_fst_emit:
  "sends es = [] \<Longrightarrow> fst (doRefreshTokenHTTP E rt (emit es c)) = fst (doRefreshTokenHTTP E rt c)"
  by (simp add: doRefreshTokenHTTP_def Let_def
      split: option.splits http_result.splits sum.splits)

lemma doBasicAuthRequest_snd:
  "snd (doBasicAuthRequest E method path unmarshal result c) =
     emit (if NewRequest E method (BaseURL (config c) @ path) = None
           then [Send \<lparr>Method = method, URL = BaseURL (config c) @ path, Body = None,
                   Headers = [SetBasicAuth (Username (config c)) (Password (config c))]\<rparr>]
           else []) c"
  by (simp add: doBasicAuthRequest_def Let_def
      split: option.splits http_result.splits sum.splits)

lemma getTokenRequest_snd:
  "snd (getTokenRequest E c) =
     emit (if NewRequest E ''POST'' (BaseURL (config c) @ ''/v2/auth/token'') = None
           then [Send (token_request c)] else []) c"
proof -
  have "snd (getTokenRequest E c) =
      snd (doBasicAuthRequest E ''POST'' ''/v2/auth/token'' (Unmarshal_Token E)
             (Some zero_TokenResponse) c)"
    by (simp add: getTokenRequest_def split: prod.splits sum.splits)
  then show ?thesis
    by (simp add: doBasicAuthRequest_snd token_request_def)
qed

subsection \<open>The three paths of \<open>ensureToken_reuse\<close>\<close>

lemma ensureToken_reuse_fresh:
  "access_fresh now c \<Longrightarrow>
     ensureToken_reuse E now c = (True, emit [Lock, Read F_accessToken, Read F_expiresAt, Unlock] c)"
  by (simp add: ensureToken_reuse_def access_fresh_def Let_def)

lemma ensureToken_reuse_stale_norefresh:
  "\<not> access_fresh now c \<Longrightarrow> \<not> canRefresh now c \<Longrightarrow>
     ensureToken_reuse E now c =
       (False, emit ([Lock, Read F_accessToken] @
                     (if accessToken c \<noteq> [] then [Read F_expiresAt] else []) @
                     [Read F_refreshToken] @
                     (if refreshToken c \<noteq> [] then [Read F_refreshExpiresAt] else []) @
                     [Read F_refreshToken, Unlock]) c)"
  by (auto simp add: ensureToken_reuse_def access_fresh_def canRefresh_def Let_def)

lemma ensureToken_reuse_refresh:
  "\<not> access_fresh now c \<Longrightarrow> canRefresh now c \<Longrightarrow>
     ensureToken_reuse E now c =
       (case doRefreshTokenHTTP E (refreshToken c) (emit (pre_refresh c) c) of
          (Inr token, c3) \<Rightarrow> (True, emit [Unlock] (storeToken token (emit [Lock] c3)))
        | (Inl err, c3) \<Rightarrow> (False, c3))"
  by (auto simp add: ensureToken_reuse_def access_fresh_def canRefresh_def Let_def pre_refresh_def)

lemma ensureToken_reuse_refresh_ok:
  assumes "\<not> access_fresh now c" "canRefresh now c"
    and "fst (doRefreshTokenHTTP E (refreshToken c) c) = Inr token"
  shows "\<exists>es. ensureToken_reuse E now c = (True, emit [Unlock] (storeToken token (emit es c)))
           \<and> sends es = [refresh_request c]"
proof -
  let ?c2 = "emit (pre_refresh c) c"
  have f: "fst (doRefreshTokenHTTP E (refreshToken c) ?c2) = Inr token"
    using assms(3) by (simp add: doRefreshTokenHTTP_fst_emit)
  have ok: "NewRequest E ''POST'' (BaseURL (config c) @ ''/v2/auth/refresh'') = None"
    using assms(3) by (auto simp: doRefreshTokenHTTP_def Let_def split: option.splits)
  have s: "snd (doRefreshTokenHTTP E (refreshToken c) ?c2) =
      emit (pre_refresh c @ [Send (refresh_request c)]) c"
    by (simp add: doRefreshTokenHTTP_snd ok refresh_request_def)
  have "doRefreshTokenHTTP E (refreshToken c) ?c2 =
      (Inr token, emit (pre_refresh c @ [Send (refresh_request c)]) c)"
    using f s by (metis prod.collapse)
  then have "ensureToken_reuse E now c =
      (True, emit [Unlock] (storeToken token (emit (pre_refresh c @ [Send (refresh_request c), Lock]) c)))"
    using assms(1,2) by (simp add: ensureToken_reuse_refresh)
  then show ?thesis
    by (intro exI [of _ "pre_refresh c @ [Send (refresh_request c), Lock]"]) simp
qed

subsection \<open>Evaluations at the sample inputs\<close>

lemmas sample_defs = body_token_abc_def body_token_new_def body_invalid_grant_def
  body_invoice_notfound_def body_authentication_failed_def env_sample_def server_ok_def server_refresh_401_def server_auth_401_def
  server_500_def server_404_def server_down_def server_empty_def client_expired_def client_valid_def cfg_sample_def
  Unmarshal_Token_sample_def Unmarshal_Error_sample_def StatusText_sample_def NewClient_def

lemmas step_defs = doRefreshTokenHTTP_def doBasicAuthRequest_def getTokenRequest_def
  json_Unmarshal_Error_def Let_def

lemma client_expired_stale: "\<not> access_fresh 1700000000 client_expired"
  by (simp add: access_fresh_def client_expired_def tokenBufferSeconds_def)

lemma client_expired_canRefresh: "canRefresh 1700000000 client_expired"
  by (simp add: canRefresh_def client_expired_def tokenBufferSeconds_def)

lemma server_ok_refresh:
  "fst (doRefreshTokenHTTP (env_sample server_ok) (refreshToken client_expired) client_expired)
     = Inr token_new"
  by (simp add: sample_defs step_defs)

lemma required_names_order: "iteration_order required_names"
  by (simp add: iteration_order_def required_names_def)

section \<open>Loading the configuration\<close>

lemma range_required_None:
  "range_required m names = None \<longleftrightarrow> (\<forall>n \<in> set names. m n \<noteq> Some [])"
  by (induction names) (auto split: option.splits)

lemma range_required_Some:
  "range_required m names = Some err \<Longrightarrow>
     \<exists>n \<in> set names. m n = Some [] \<and>
       err = OtherError (''required environment variable '' @ n @ '' is not set'')"
  by (induction names) (auto split: option.splits if_splits)

lemma Getenv_empty: "Getenv environ n = [] \<longleftrightarrow> environ n = None \<or> environ n = Some []"
  by (simp add: Getenv_def split: option.splits)

lemma required_names_lookup:
  "n \<in> set required_names \<Longrightarrow> required (env_cfg environ) n = Some (Getenv environ n)"
  by (auto simp: required_names_def required_def env_cfg_def)

text \<open>
  Claim C8. Whatever order the runtime picks for the iteration over \<open>required\<close>,
  \<open>LoadConfigFromEnv\<close> returns an error if and only if one of the five variables is
  unset or empty; the error's message then names a variable that is unset or empty; and a
  returned \<open>Config\<close> holds in its five fields the values of the five variables.
\<close>

theorem LoadConfigFromEnv_required:
  assumes "iteration_order names"
  shows "((\<exists>err. LoadConfigFromEnv environ names = Inl err) \<longleftrightarrow>
           (\<exists>n \<in> set required_names. environ n = None \<or> environ n = Some []))
       \<and> (\<forall>err. LoadConfigFromEnv environ names = Inl err \<longrightarrow>
           (\<exists>n \<in> set required_names. (environ n = None \<or> environ n = Some []) \<and>
              err = OtherError (''required environment variable '' @ n @ '' is not set'')))
       \<and> (\<forall>cfg. LoadConfigFromEnv environ names = Inr cfg \<longrightarrow>
             environ ''QPAY_BASE_URL'' = Some (BaseURL cfg) \<and>
             environ ''QPAY_USERNAME'' = Some (Username cfg) \<and>
             environ ''QPAY_PASSWORD'' = Some (Password cfg) \<and>
             environ ''QPAY_INVOICE_CODE'' = Some (InvoiceCode cfg) \<and>
             environ ''QPAY_CALLBACK_URL'' = Some (CallbackURL cfg))"
proof -
  let ?cfg = "env_cfg environ"
  have names: "set names = set required_names"
    using assms by (simp add: iteration_order_def)
  have L: "LoadConfigFromEnv environ names =
      (case range_required (required ?cfg) names of Some err \<Rightarrow> Inl err | None \<Rightarrow> Inr ?cfg)"
    unfolding LoadConfigFromEnv_def env_cfg_def Let_def by (rule refl)
  have miss: "(\<exists>n \<in> set required_names. required ?cfg n = Some []) \<longleftrightarrow>
      (\<exists>n \<in> set required_names. environ n = None \<or> environ n = Some [])"
    by (metis required_names_lookup Getenv_empty option.inject)
  have A: "(\<exists>err. LoadConfigFromEnv environ names = Inl err) \<longleftrightarrow>
           (\<exists>n \<in> set required_names. environ n = None \<or> environ n = Some [])"
  proof -
    have "(\<exists>err. LoadConfigFromEnv environ names = Inl err) \<longleftrightarrow>
        range_required (required ?cfg) names \<noteq> None"
      by (auto simp: L split: option.splits)
    also have "\<dots> \<longleftrightarrow> (\<exists>n \<in> set required_names. required ?cfg n = Some [])"
      by (simp add: range_required_None names)
    finally show ?thesis using miss by simp
  qed
  have B: "\<exists>n \<in> set required_names. (environ n = None \<or> environ n = Some []) \<and>
              err = OtherError (''required environment variable '' @ n @ '' is not set'')"
    if "LoadConfigFromEnv environ names = Inl err" for err
  proof -
    from that have "range_required (required ?cfg) names = Some err"
      by (auto simp: L split: option.splits)
    from range_required_Some [OF this] obtain n where
      n: "n \<in> set required_names" "required ?cfg n = Some []"
         "err = OtherError (''required environment variable '' @ n @ '' is not set'')"
      using names by auto
    from n(1,2) have "environ n = None \<or> environ n = Some []"
      by (metis required_names_lookup Getenv_empty option.inject)
    with n show ?thesis by blast
  qed
  have C: "environ ''QPAY_BASE_URL'' = Some (BaseURL cfg) \<and>
             environ ''QPAY_USERNAME'' = Some (Username cfg) \<and>
             environ ''QPAY_PASSWORD'' = Some (Password cfg) \<and>
             environ ''QPAY_INVOICE_CODE'' = Some (InvoiceCode cfg) \<and>
             environ ''QPAY_CALLBACK_URL'' = Some (CallbackURL cfg)"
    if "LoadConfigFromEnv environ names = Inr cfg" for cfg
  proof -
    from that have cfg: "cfg = ?cfg" and none: "range_required (required ?cfg) names = None"
      by (auto simp: L split: option.splits)
    from none have ne: "\<forall>n \<in> set required_names. Getenv environ n \<noteq> []"
      using names required_names_lookup [of _ environ] by (auto simp: range_required_None)
    have get: "n \<in> set required_names \<Longrightarrow> environ n = Some (Getenv environ n)" for n
      using ne by (auto simp: Getenv_def split: option.splits)
    show ?thesis
      unfolding cfg using get by (simp add: env_cfg_def required_names_def)
  qed
  from A B C show ?thesis by blast
qed

theorem LoadConfigFromEnv_required_witness:
  "iteration_order required_names
   \<and> LoadConfigFromEnv environ_sample required_names =
       Inr \<lparr>BaseURL = ''https://merchant.qpay.mn'', Username = ''testuser'',
            Password = ''testpass'', InvoiceCode = ''INV_CODE'',
            CallbackURL = ''https://example.com/callback''\<rparr>
   \<and> environ_sample ''QPAY_BASE_URL'' = Some ''https://merchant.qpay.mn''
   \<and> environ_sample ''QPAY_CALLBACK_URL'' = Some ''https://example.com/callback''
   \<and> LoadConfigFromEnv (environ_sample(''QPAY_PASSWORD'' := None)) required_names =
       Inl (OtherError ''required environment variable QPAY_PASSWORD is not set'')
   \<and> (environ_sample(''QPAY_PASSWORD'' := None)) ''QPAY_PASSWORD'' = None"
  using LoadConfigFromEnv_required [OF required_names_order, of environ_sample]
    LoadConfigFromEnv_required [OF required_names_order, of "environ_sample(''QPAY_PASSWORD'' := None)"]
    required_names_order
  by (simp add: LoadConfigFromEnv_def environ_sample_def Getenv_def required_def required_names_def)

section \<open>Token management\<close>

text \<open>
  Claim C3. When the stored access token fails the check of \<open>ensureToken\<close>, the stored
  refresh token is not empty with \<open>now < refreshExpiresAt - 30\<close>, and the refresh call
  succeeds with \<open>token\<close>, then \<open>ensureToken\<close> returns nil, the only request it has sent
  is the refresh request (POST to \<^verbatim>\<open>/v2/auth/refresh\<close> with the stored refresh token as
  bearer) and no request of the full authentication, and the four token fields are those
  of \<open>token\<close>.
\<close>

theorem ensureToken_refresh_preferred:
  assumes "\<not> access_fresh now c" "canRefresh now c"
    and "fst (doRefreshTokenHTTP E (refreshToken c) c) = Inr token"
  shows "fst (ensureToken E now c) = None
       \<and> sent_between c (snd (ensureToken E now c)) [refresh_request c]
       \<and> token_state (snd (ensureToken E now c)) = token_fields token"
proof -
  from ensureToken_reuse_refresh_ok [OF assms] obtain es where
    es: "ensureToken_reuse E now c = (True, emit [Unlock] (storeToken token (emit es c)))"
        "sends es = [refresh_request c]"
    by blast
  then have "ensureToken E now c = (None, emit [Unlock] (storeToken token (emit es c)))"
    by (simp add: ensureToken_def)
  then show ?thesis
    using es(2) by (simp add: sent_between_def)
qed

theorem ensureToken_refresh_preferred_witness:
  "\<not> access_fresh 1700000000 client_expired
   \<and> canRefresh 1700000000 client_expired
   \<and> fst (doRefreshTokenHTTP (env_sample server_ok) (refreshToken client_expired) client_expired)
       = Inr token_new
   \<and> fst (ensureToken (env_sample server_ok) 1700000000 client_expired) = None
   \<and> sent_between client_expired (snd (ensureToken (env_sample server_ok) 1700000000 client_expired))
       [refresh_request client_expired]
   \<and> token_state (snd (ensureToken (env_sample server_ok) 1700000000 client_expired))
       = token_fields token_new"
  using ensureToken_refresh_preferred
      [OF client_expired_stale client_expired_canRefresh server_ok_refresh]
    client_expired_stale client_expired_canRefresh server_ok_refresh
  by simp


subsection \<open>Paths of \<open>ensureToken\<close>\<close>

lemma ensureToken_fresh:
  "access_fresh now c \<Longrightarrow>
     ensureToken E now c = (None, emit [Lock, Read F_accessToken, Read F_expiresAt, Unlock] c)"
  by (simp add: ensureToken_def ensureToken_reuse_fresh)

lemma ensureToken_calls_fresh:
  "\<forall>t \<in> set nows. access_fresh t c \<Longrightarrow>
     ensureToken_calls E nows c =
       (replicate (length nows) None,
        emit (concat (replicate (length nows) [Lock, Read F_accessToken, Read F_expiresAt, Unlock])) c)"
proof (induction nows arbitrary: c)
  case Nil
  then show ?case by simp
next
  case (Cons now nows)
  have "\<forall>t \<in> set nows. access_fresh t (emit [Lock, Read F_accessToken, Read F_expiresAt, Unlock] c)"
    using Cons.prems by simp
  from Cons.IH [OF this] show ?case
    using Cons.prems by (simp add: ensureToken_fresh)
qed

lemma sends_concat_replicate:
  "sends es = [] \<Longrightarrow> sends (concat (replicate n es)) = []"
  by (induction n) simp_all


lemma ensureToken_reuse_refresh_fail:
  assumes "\<not> access_fresh now c" "canRefresh now c"
    and "fst (doRefreshTokenHTTP E (refreshToken c) c) = Inl rerr"
  shows "ensureToken_reuse E now c = (False, emit (pre_refresh c @ map Send (refresh_sent E c)) c)"
proof -
  let ?c2 = "emit (pre_refresh c) c"
  have f: "fst (doRefreshTokenHTTP E (refreshToken c) ?c2) = Inl rerr"
    using assms(3) by (simp add: doRefreshTokenHTTP_fst_emit)
  have s: "snd (doRefreshTokenHTTP E (refreshToken c) ?c2) =
      emit (pre_refresh c @ map Send (refresh_sent E c)) c"
    by (simp add: doRefreshTokenHTTP_snd refresh_sent_def refresh_request_def)
  have "doRefreshTokenHTTP E (refreshToken c) ?c2 =
      (Inl rerr, emit (pre_refresh c @ map Send (refresh_sent E c)) c)"
    using f s by (metis prod.collapse)
  then show ?thesis
    using assms(1,2) by (simp add: ensureToken_reuse_refresh)
qed

lemma sends_map_Send [simp]: "sends (map Send reqs) = reqs"
  by (induction reqs) simp_all

lemma token_request_emit [simp]: "token_request (emit es c) = token_request c"
  by (simp add: token_request_def)

lemma token_sent_emit [simp]: "token_sent E (emit es c) = token_sent E c"
  by (simp add: token_sent_def)

text \<open>
  What \<open>ensureToken\<close> does once its first part has handed over to the full
  authentication.
\<close>

lemma ensureToken_full_auth:
  assumes "ensureToken_reuse E now c = (False, c3)"
  shows "sent_between c3 (snd (ensureToken E now c)) (token_sent E c3)"
    and "fst (getTokenRequest E c3) = Inr token \<Longrightarrow>
           fst (ensureToken E now c) = None \<and>
           token_state (snd (ensureToken E now c)) = token_fields token"
    and "fst (getTokenRequest E c3) = Inl err \<Longrightarrow>
           fst (ensureToken E now c) = Some (WrapError ''failed to get token: '' err) \<and>
           token_state (snd (ensureToken E now c)) = token_state c3"
proof -
  obtain r c4 where g: "getTokenRequest E c3 = (r, c4)"
    by (cases "getTokenRequest E c3")
  have c4: "c4 = emit (if NewRequest E ''POST'' (BaseURL (config c3) @ ''/v2/auth/token'') = None
           then [Send (token_request c3)] else []) c3"
    using getTokenRequest_snd [of E c3] g by simp
  show "sent_between c3 (snd (ensureToken E now c)) (token_sent E c3)"
    using assms g c4 by (cases r) (simp_all add: ensureToken_def sent_between_def token_sent_def)
  show "fst (ensureToken E now c) = None \<and>
           token_state (snd (ensureToken E now c)) = token_fields token"
    if "fst (getTokenRequest E c3) = Inr token"
    using that assms g by (simp add: ensureToken_def)
  show "fst (ensureToken E now c) = Some (WrapError ''failed to get token: '' err) \<and>
           token_state (snd (ensureToken E now c)) = token_state c3"
    if "fst (getTokenRequest E c3) = Inl err"
    using that assms g c4 by (simp add: ensureToken_def)
qed

lemma ensureToken_stale_norefresh_sends:
  assumes "\<not> access_fresh now c" "\<not> canRefresh now c"
  shows "sent_between c (snd (ensureToken E now c)) (token_sent E c)"
proof -
  let ?c3 = "emit ([Lock, Read F_accessToken] @
                     (if accessToken c \<noteq> [] then [Read F_expiresAt] else []) @
                     [Read F_refreshToken] @
                     (if refreshToken c \<noteq> [] then [Read F_refreshExpiresAt] else []) @
                     [Read F_refreshToken, Unlock]) c"
  have r: "ensureToken_reuse E now c = (False, ?c3)"
    by (rule ensureToken_reuse_stale_norefresh [OF assms])
  have "sends (trace ?c3) = sends (trace c)" by simp
  then show ?thesis
    using ensureToken_full_auth(1) [OF r] by (simp add: sent_between_def)
qed

lemma token_sent_length: "length (token_sent E c) \<le> 1"
  by (simp add: token_sent_def)


lemma server_refresh_401_refresh:
  "fst (doRefreshTokenHTTP (env_sample server_refresh_401) (refreshToken client_expired) client_expired)
     = Inl (ErrorPtr (Some \<lparr>StatusCode = 401, Code = ''invalid_grant'', Message = [],
              RawBody = body_invalid_grant\<rparr>))"
  by (simp add: sample_defs step_defs)

lemma server_refresh_401_reuse:
  "ensureToken_reuse (env_sample server_refresh_401) 1700000000 client_expired =
     (False, emit [Lock, Read F_accessToken, Read F_expiresAt, Read F_refreshToken,
        Read F_refreshExpiresAt, Read F_refreshToken, Unlock, Send (refresh_request client_expired)]
        client_expired)"
  using ensureToken_reuse_refresh_fail
      [OF client_expired_stale client_expired_canRefresh server_refresh_401_refresh]
  by (simp add: pre_refresh_def refresh_sent_def) (simp add: sample_defs)

lemma server_refresh_401_auth:
  "fst (getTokenRequest (env_sample server_refresh_401)
     (emit [Lock, Read F_accessToken, Read F_expiresAt, Read F_refreshToken,
        Read F_refreshExpiresAt, Read F_refreshToken, Unlock, Send (refresh_request client_expired)]
        client_expired)) = Inr token_abc"
  by (simp add: sample_defs step_defs emit_def)

lemma client_valid_fresh: "access_fresh 1700000000 client_valid"
  by (simp add: access_fresh_def client_valid_def tokenBufferSeconds_def)

lemma client_valid_fresh_later: "access_fresh 1700003000 client_valid"
  by (simp add: access_fresh_def client_valid_def tokenBufferSeconds_def)

lemma NewClient_norefresh: "\<not> canRefresh 1700000000 (NewClient cfg_sample)"
  by (simp add: canRefresh_def NewClient_def)

lemma NewClient_first_call:
  "ensureToken (env_sample server_ok) 1700000000 (NewClient cfg_sample) =
     (None, \<lparr>config = cfg_sample, accessToken = ''access-abc'', refreshToken = ''refresh-xyz'',
        expiresAt = 1700003600, refreshExpiresAt = 1700007200,
        trace = [Lock, Read F_accessToken, Read F_refreshToken, Read F_refreshToken, Unlock,
          Send (token_request (NewClient cfg_sample)),
          Lock, Write F_accessToken, Write F_refreshToken, Write F_expiresAt,
          Write F_refreshExpiresAt, Unlock]\<rparr>)"
  by (simp add: ensureToken_def ensureToken_reuse_def sample_defs step_defs emit_def storeToken_def
      token_abc_def token_request_def)


text \<open>
  Claim C2. When the stored access token is not empty and \<open>now < expiresAt - 30\<close>,
  \<open>ensureToken\<close> returns nil, hands no request to the executor, and leaves the four
  token fields as they were. Hence a sequence of \<open>ensureToken\<close> calls whose clock values
  all lie in that window returns nil every time and sends nothing at all; and when a first
  call by a client that cannot refresh is followed by calls inside the window of the token
  that the first call left, the whole sequence sends at most one request.
  (The hypothesis is the check as Go evaluates it, on \<^verbatim>\<open>int64\<close>; it holds whenever
  \<open>now < expiresAt - 30\<close> holds over the integers.)
\<close>

theorem ensureToken_cache_hit:
  "(access_fresh now c \<longrightarrow>
      fst (ensureToken E now c) = None
      \<and> sent_between c (snd (ensureToken E now c)) []
      \<and> token_state (snd (ensureToken E now c)) = token_state c)
   \<and> ((\<forall>t \<in> set nows. access_fresh t c) \<longrightarrow>
      fst (ensureToken_calls E nows c) = replicate (length nows) None
      \<and> sent_between c (snd (ensureToken_calls E nows c)) []
      \<and> token_state (snd (ensureToken_calls E nows c)) = token_state c)
   \<and> (\<not> canRefresh now c \<and> (\<forall>t \<in> set nows. access_fresh t (snd (ensureToken E now c))) \<longrightarrow>
      (\<exists>reqs. sent_between c (snd (ensureToken_calls E (now # nows) c)) reqs \<and> length reqs \<le> 1))"
proof (intro conjI impI)
  assume "access_fresh now c"
  then have e: "ensureToken E now c = (None, emit [Lock, Read F_accessToken, Read F_expiresAt, Unlock] c)"
    by (rule ensureToken_fresh)
  show "fst (ensureToken E now c) = None" by (simp add: e)
  show "sent_between c (snd (ensureToken E now c)) []" by (simp add: e sent_between_def)
  show "token_state (snd (ensureToken E now c)) = token_state c" by (simp add: e)
next
  assume "\<forall>t \<in> set nows. access_fresh t c"
  note e = ensureToken_calls_fresh [OF this, of E]
  show "fst (ensureToken_calls E nows c) = replicate (length nows) None" by (simp add: e)
  show "sent_between c (snd (ensureToken_calls E nows c)) []"
    by (simp add: e sent_between_def sends_concat_replicate)
  show "token_state (snd (ensureToken_calls E nows c)) = token_state c" by (simp add: e)
next
  assume a: "\<not> canRefresh now c \<and> (\<forall>t \<in> set nows. access_fresh t (snd (ensureToken E now c)))"
  obtain r c' where first: "ensureToken E now c = (r, c')"
    by (cases "ensureToken E now c")
  have "\<exists>reqs. sent_between c c' reqs \<and> length reqs \<le> 1"
  proof (cases "access_fresh now c")
    case True
    then show ?thesis
      using first by (auto simp: ensureToken_fresh sent_between_def)
  next
    case False
    with a first ensureToken_stale_norefresh_sends [of now c E] token_sent_length [of E c]
    show ?thesis by auto
  qed
  then obtain reqs where reqs: "sent_between c c' reqs" "length reqs \<le> 1" by blast
  from a first have "\<forall>t \<in> set nows. access_fresh t c'" by simp
  note e = ensureToken_calls_fresh [OF this, of E]
  have "sent_between c (snd (ensureToken_calls E (now # nows) c)) reqs"
    using reqs(1) by (simp add: first e sent_between_def sends_concat_replicate)
  with reqs(2) show "\<exists>reqs. sent_between c (snd (ensureToken_calls E (now # nows) c)) reqs \<and> length reqs \<le> 1"
    by blast
qed


theorem ensureToken_cache_hit_witness:
  "access_fresh 1700000000 client_valid
   \<and> access_fresh 1700003000 client_valid
   \<and> fst (ensureToken (env_sample server_ok) 1700000000 client_valid) = None
   \<and> sends (trace (snd (ensureToken (env_sample server_ok) 1700000000 client_valid))) = []
   \<and> fst (ensureToken_calls (env_sample server_ok) [1700000000, 1700003000] client_valid)
       = [None, None]
   \<and> sends (trace (snd (ensureToken_calls (env_sample server_ok) [1700000000, 1700003000]
        client_valid))) = []
   \<and> \<not> canRefresh 1700000000 (NewClient cfg_sample)
   \<and> access_fresh 1700000000
         (snd (ensureToken (env_sample server_ok) 1700000000 (NewClient cfg_sample)))
   \<and> access_fresh 1700003000
         (snd (ensureToken (env_sample server_ok) 1700000000 (NewClient cfg_sample)))
   \<and> length (sends (trace (snd (ensureToken_calls (env_sample server_ok)
        [1700000000, 1700000000, 1700003000] (NewClient cfg_sample))))) \<le> 1"
proof -
  let ?E = "env_sample server_ok"
  have all: "\<forall>t \<in> set [1700000000, 1700003000]. access_fresh t client_valid"
    using client_valid_fresh client_valid_fresh_later by simp
  have later: "\<forall>t \<in> set [1700000000, 1700003000].
         access_fresh t (snd (ensureToken ?E 1700000000 (NewClient cfg_sample)))"
    by (simp add: NewClient_first_call access_fresh_def tokenBufferSeconds_def)
  have t0: "sends (trace client_valid) = []" "sends (trace (NewClient cfg_sample)) = []"
    by (simp_all add: client_valid_def NewClient_def)
  note inst1 = ensureToken_cache_hit [where now = 1700000000 and c = client_valid and E = ?E
      and nows = "[1700000000, 1700003000]"]
  note inst2 = ensureToken_cache_hit [where now = 1700000000 and c = "NewClient cfg_sample" and E = ?E
      and nows = "[1700000000, 1700003000]"]
  from inst1 client_valid_fresh all
  have a: "fst (ensureToken ?E 1700000000 client_valid) = None"
    "sent_between client_valid (snd (ensureToken ?E 1700000000 client_valid)) []"
    "fst (ensureToken_calls ?E [1700000000, 1700003000] client_valid) = [None, None]"
    "sent_between client_valid (snd (ensureToken_calls ?E [1700000000, 1700003000] client_valid)) []"
    by simp_all
  from inst2 NewClient_norefresh later
  obtain reqs where "sent_between (NewClient cfg_sample)
      (snd (ensureToken_calls ?E [1700000000, 1700000000, 1700003000] (NewClient cfg_sample))) reqs"
    "length reqs \<le> 1"
    by blast
  then have b: "length (sends (trace (snd (ensureToken_calls ?E
        [1700000000, 1700000000, 1700003000] (NewClient cfg_sample))))) \<le> 1"
    using t0 by (simp add: sent_between_def)
  show ?thesis
    using a b all later client_valid_fresh NewClient_norefresh t0
    by (simp add: sent_between_def numeral_2_eq_2)
qed


text \<open>
  Claim C1. When the stored access token fails the check of \<open>ensureToken\<close>, the refresh
  check passes and the refresh call fails with whatever error \<open>rerr\<close>, control reaches
  the full authentication in a state \<open>c3\<close> that has the configuration and the token
  fields of the start, and \<open>ensureToken\<close> then runs \<open>getTokenRequest\<close> once: the requests
  sent are the refresh request followed by the one request of the full authentication (each
  present when \<^verbatim>\<open>http.NewRequestWithContext\<close> builds it); if \<open>getTokenRequest\<close> succeeds,
  \<open>ensureToken\<close> returns nil and the token fields are those of the new token; if it fails
  with \<open>err\<close>, \<open>ensureToken\<close> returns \<open>err\<close> wrapped and the token fields are unchanged.
  The refresh error \<open>rerr\<close> occurs in neither outcome.
\<close>

theorem ensureToken_fallback:
  assumes "\<not> access_fresh now c" "canRefresh now c"
    and "fst (doRefreshTokenHTTP E (refreshToken c) c) = Inl rerr"
  shows "\<exists>c3. ensureToken_reuse E now c = (False, c3)
      \<and> config c3 = config c \<and> token_state c3 = token_state c
      \<and> sent_between c c3 (refresh_sent E c)
      \<and> sent_between c3 (snd (ensureToken E now c)) (token_sent E c)
      \<and> (\<forall>token. fst (getTokenRequest E c3) = Inr token \<longrightarrow>
            fst (ensureToken E now c) = None \<and>
            token_state (snd (ensureToken E now c)) = token_fields token)
      \<and> (\<forall>err. fst (getTokenRequest E c3) = Inl err \<longrightarrow>
            fst (ensureToken E now c) = Some (WrapError ''failed to get token: '' err) \<and>
            token_state (snd (ensureToken E now c)) = token_state c)"
proof -
  let ?c3 = "emit (pre_refresh c @ map Send (refresh_sent E c)) c"
  have r: "ensureToken_reuse E now c = (False, ?c3)"
    by (rule ensureToken_reuse_refresh_fail [OF assms])
  have "sent_between c ?c3 (refresh_sent E c)"
    by (simp add: sent_between_def)
  moreover have "sent_between ?c3 (snd (ensureToken E now c)) (token_sent E c)"
    using ensureToken_full_auth(1) [OF r] by simp
  moreover have "fst (ensureToken E now c) = None \<and>
            token_state (snd (ensureToken E now c)) = token_fields token"
    if "fst (getTokenRequest E ?c3) = Inr token" for token
    using ensureToken_full_auth(2) [OF r that] .
  moreover have "fst (ensureToken E now c) = Some (WrapError ''failed to get token: '' err) \<and>
            token_state (snd (ensureToken E now c)) = token_state c"
    if "fst (getTokenRequest E ?c3) = Inl err" for err
    using ensureToken_full_auth(3) [OF r that] by simp
  ultimately show ?thesis
    using r by (intro exI [of _ ?c3]) simp
qed


theorem ensureToken_fallback_witness:
  "\<not> access_fresh 1700000000 client_expired
   \<and> canRefresh 1700000000 client_expired
   \<and> fst (doRefreshTokenHTTP (env_sample server_refresh_401) (refreshToken client_expired)
        client_expired)
       = Inl (ErrorPtr (Some \<lparr>StatusCode = 401, Code = ''invalid_grant'', Message = [],
              RawBody = body_invalid_grant\<rparr>))
   \<and> fst (ensureToken (env_sample server_refresh_401) 1700000000 client_expired) = None
   \<and> token_state (snd (ensureToken (env_sample server_refresh_401) 1700000000 client_expired))
       = token_fields token_abc
   \<and> sends (trace (snd (ensureToken (env_sample server_refresh_401) 1700000000 client_expired)))
       = [refresh_request client_expired, token_request client_expired]"
proof -
  let ?E = "env_sample server_refresh_401"
  from ensureToken_fallback [OF client_expired_stale client_expired_canRefresh server_refresh_401_refresh]
  obtain c3 where
    c3: "ensureToken_reuse ?E 1700000000 client_expired = (False, c3)"
    and s1: "sent_between client_expired c3 (refresh_sent ?E client_expired)"
    and s2: "sent_between c3 (snd (ensureToken ?E 1700000000 client_expired))
               (token_sent ?E client_expired)"
    and ok: "\<forall>token. fst (getTokenRequest ?E c3) = Inr token \<longrightarrow>
            fst (ensureToken ?E 1700000000 client_expired) = None \<and>
            token_state (snd (ensureToken ?E 1700000000 client_expired)) = token_fields token"
    by blast
  from c3 have "c3 = emit [Lock, Read F_accessToken, Read F_expiresAt, Read F_refreshToken,
        Read F_refreshExpiresAt, Read F_refreshToken, Unlock, Send (refresh_request client_expired)]
        client_expired"
    by (simp add: server_refresh_401_reuse)
  then have "fst (getTokenRequest ?E c3) = Inr token_abc"
    by (simp only: server_refresh_401_auth)
  with ok have "fst (ensureToken ?E 1700000000 client_expired) = None \<and>
      token_state (snd (ensureToken ?E 1700000000 client_expired)) = token_fields token_abc"
    by blast
  moreover have "sends (trace (snd (ensureToken ?E 1700000000 client_expired)))
       = [refresh_request client_expired, token_request client_expired]"
    using s1 s2 by (simp add: sent_between_def refresh_sent_def token_sent_def)
      (simp add: sample_defs)
  ultimately show ?thesis
    using client_expired_stale client_expired_canRefresh server_refresh_401_refresh by simp
qed




subsection \<open>What the operations do to the token fields\<close>

lemma ensureToken_reuse_False:
  assumes "ensureToken_reuse E now c = (False, c3)"
  shows "\<exists>es. c3 = emit es c"
proof (cases "access_fresh now c")
  case True
  with assms show ?thesis by (simp add: ensureToken_reuse_fresh)
next
  case stale: False
  show ?thesis
  proof (cases "canRefresh now c")
    case False
    with stale assms show ?thesis
      by (auto simp: ensureToken_reuse_stale_norefresh)
  next
    case True
    obtain r c' where d: "doRefreshTokenHTTP E (refreshToken c) (emit (pre_refresh c) c) = (r, c')"
      by (cases "doRefreshTokenHTTP E (refreshToken c) (emit (pre_refresh c) c)")
    have "\<exists>es. c' = emit es c"
      using doRefreshTokenHTTP_snd [of E "refreshToken c" "emit (pre_refresh c) c"] d
      by (auto split: if_splits)
    with stale True assms d show ?thesis
      by (cases r) (auto simp: ensureToken_reuse_refresh)
  qed
qed

lemma ensureToken_reuse_True:
  assumes "ensureToken_reuse E now c = (True, c')"
  shows "token_state c' = token_state c \<or>
    (\<exists>token. fst (doRefreshTokenHTTP E (refreshToken c) c) = Inr token \<and>
       token_state c' = token_fields token)"
proof (cases "access_fresh now c")
  case True
  with assms show ?thesis by (auto simp: ensureToken_reuse_fresh)
next
  case stale: False
  show ?thesis
  proof (cases "canRefresh now c")
    case False
    with stale assms show ?thesis
      by (auto simp: ensureToken_reuse_stale_norefresh)
  next
    case True
    obtain r c2 where d: "doRefreshTokenHTTP E (refreshToken c) (emit (pre_refresh c) c) = (r, c2)"
      by (cases "doRefreshTokenHTTP E (refreshToken c) (emit (pre_refresh c) c)")
    then have "fst (doRefreshTokenHTTP E (refreshToken c) c) = r"
      using doRefreshTokenHTTP_fst_emit [of "pre_refresh c" E "refreshToken c" c] by simp
    with stale True assms d show ?thesis
      by (cases r) (auto simp: ensureToken_reuse_refresh)
  qed
qed

lemma GetToken_cases:
  "(fst (getTokenRequest E c) = Inl err \<longrightarrow>
      fst (GetToken E c) = Inl err \<and>
      token_state (snd (GetToken E c)) = token_state c)
   \<and> (fst (getTokenRequest E c) = Inr token \<longrightarrow>
      fst (GetToken E c) = Inr token \<and>
      token_state (snd (GetToken E c)) = token_fields token)"
proof -
  obtain r c' where g: "getTokenRequest E c = (r, c')"
    by (cases "getTokenRequest E c")
  have "token_state c' = token_state c"
    using getTokenRequest_snd [of E c] g by simp
  with g show ?thesis
    by (cases r) (auto simp: GetToken_def)
qed

lemma Client_RefreshToken_cases:
  "(fst (doRefreshTokenHTTP E (refreshToken c) c) = Inl err \<longrightarrow>
      fst (Client_RefreshToken E c) = Inl err \<and>
      token_state (snd (Client_RefreshToken E c)) = token_state c)
   \<and> (fst (doRefreshTokenHTTP E (refreshToken c) c) = Inr token \<longrightarrow>
      fst (Client_RefreshToken E c) = Inr token \<and>
      token_state (snd (Client_RefreshToken E c)) = token_fields token)"
proof -
  let ?c1 = "emit [Lock, Read F_refreshToken, Unlock] c"
  obtain r c' where g: "doRefreshTokenHTTP E (refreshToken c) ?c1 = (r, c')"
    by (cases "doRefreshTokenHTTP E (refreshToken c) ?c1")
  have "token_state c' = token_state c"
    using doRefreshTokenHTTP_snd [of E "refreshToken c" ?c1] g by simp
  moreover have "fst (doRefreshTokenHTTP E (refreshToken c) c) = r"
    using doRefreshTokenHTTP_fst_emit [of "[Lock, Read F_refreshToken, Unlock]" E "refreshToken c" c] g
    by simp
  ultimately show ?thesis
    using g by (cases r) (auto simp: Client_RefreshToken_def Let_def)
qed

text \<open>The reasons for which the full authentication fails.\<close>

lemma getTokenRequest_fails:
  assumes "NewRequest E ''POST'' (BaseURL (config c) @ ''/v2/auth/token'') = None"
  shows "Do E (sends (trace c)) (token_request c) = DoFails e \<Longrightarrow>
           fst (getTokenRequest E c) = Inl (WrapError ''request failed: '' e)"
    and "Do E (sends (trace c)) (token_request c) = ReadFails status e \<Longrightarrow>
           fst (getTokenRequest E c) = Inl (WrapError ''failed to read response body: '' e)"
    and "Do E (sends (trace c)) (token_request c) = Response status body \<Longrightarrow>
           status < 200 \<or> 300 \<le> status \<Longrightarrow>
           \<exists>qErr. fst (getTokenRequest E c) = Inl (ErrorPtr (Some qErr))"
    and "Do E (sends (trace c)) (token_request c) = Response status body \<Longrightarrow>
           200 \<le> status \<Longrightarrow> status < 300 \<Longrightarrow> body \<noteq> [] \<Longrightarrow>
           Unmarshal_Token E body zero_TokenResponse = Inl e \<Longrightarrow>
           fst (getTokenRequest E c) = Inl (WrapError ''failed to unmarshal response: '' e)"
  using assms
  by (auto simp add: getTokenRequest_def doBasicAuthRequest_def token_request_def Let_def)

text \<open>Where the token of a successful step comes from.\<close>

lemma getTokenRequest_token:
  assumes "fst (getTokenRequest E c) = Inr token"
  shows "\<exists>status body.
           Do E (sends (trace c)) (token_request c) = Response status body \<and>
           200 \<le> status \<and> status < 300 \<and>
           (if body = [] then token = zero_TokenResponse
            else Unmarshal_Token E body zero_TokenResponse = Inr token)"
proof (cases "Do E (sends (trace c)) (token_request c)")
  case (DoFails e)
  with assms show ?thesis
    by (simp add: getTokenRequest_def doBasicAuthRequest_def token_request_def Let_def
        split: option.splits)
next
  case (ReadFails status e)
  with assms show ?thesis
    by (simp add: getTokenRequest_def doBasicAuthRequest_def token_request_def Let_def
        split: option.splits)
next
  case (Response status body)
  with assms have "200 \<le> status \<and> status < 300 \<and>
           (if body = [] then token = zero_TokenResponse
            else Unmarshal_Token E body zero_TokenResponse = Inr token)"
    by (auto simp add: getTokenRequest_def doBasicAuthRequest_def token_request_def Let_def
        split: option.splits if_splits sum.splits)
  with Response show ?thesis by blast
qed

lemma doRefreshTokenHTTP_token:
  assumes "fst (doRefreshTokenHTTP E (refreshToken c) c) = Inr token"
  shows "\<exists>status body.
           Do E (sends (trace c)) (refresh_request c) = Response status body \<and>
           200 \<le> status \<and> status < 300 \<and>
           Unmarshal_Token E body zero_TokenResponse = Inr token"
proof (cases "Do E (sends (trace c)) (refresh_request c)")
  case (DoFails e)
  with assms show ?thesis
    by (simp add: doRefreshTokenHTTP_def refresh_request_def Let_def split: option.splits)
next
  case (ReadFails status e)
  with assms show ?thesis
    by (simp add: doRefreshTokenHTTP_def refresh_request_def Let_def split: option.splits)
next
  case (Response status body)
  with assms have "200 \<le> status \<and> status < 300 \<and>
           Unmarshal_Token E body zero_TokenResponse = Inr token"
    by (auto simp add: doRefreshTokenHTTP_def refresh_request_def Let_def
        split: option.splits if_splits sum.splits)
  with Response show ?thesis by blast
qed

lemma server_auth_401_ensureToken:
  "fst (ensureToken (env_sample server_auth_401) 1700000000 client_expired) =
     Some (WrapError ''failed to get token: '' (ErrorPtr (Some error_401)))"
  by (simp add: ensureToken_def ensureToken_reuse_def sample_defs step_defs emit_def
      tokenBufferSeconds_def error_401_def)

lemma server_auth_401_getTokenRequest:
  "fst (getTokenRequest (env_sample server_auth_401) client_expired) =
     Inl (ErrorPtr (Some error_401))"
  by (simp add: sample_defs step_defs emit_def error_401_def)

lemma server_auth_401_refresh:
  "fst (doRefreshTokenHTTP (env_sample server_auth_401) (refreshToken client_expired) client_expired) =
     Inl (ErrorPtr (Some error_401))"
  by (simp add: sample_defs step_defs emit_def error_401_def)

lemma client_expired_token_state:
  "token_state client_expired = (''access-old'', ''refresh-old'', 1699999900, 1700007200)"
  by (simp add: token_state_def client_expired_def)


text \<open>
  The same response on the two paths. The refresh call decodes every body of a response
  with status in 200..299, so for a 200 with an empty body \<open>RefreshToken\<close> returns the
  error of the decoder and leaves the token fields; the full authentication decodes only a
  body that is not empty, so \<open>ensureToken\<close>, like \<open>GetToken\<close> below, returns nil there
  and stores the zero token.
\<close>

lemma RefreshToken_empty_body_fails:
  "fst (Client_RefreshToken (env_sample server_empty) client_valid)
     = Inl (OtherError ''unexpected end of JSON input'')
   \<and> token_state (snd (Client_RefreshToken (env_sample server_empty) client_valid))
     = (''access-abc'', ''refresh-xyz'', 1700003600, 1700007200)"
  by (simp add: Client_RefreshToken_def sample_defs step_defs emit_def token_state_def
      zero_TokenResponse_def)

lemma ensureToken_empty_body_overwrites:
  "fst (ensureToken (env_sample server_empty) 1700000000
          (client_expired\<lparr>refreshToken := []\<rparr>)) = None
   \<and> token_state (snd (ensureToken (env_sample server_empty) 1700000000
          (client_expired\<lparr>refreshToken := []\<rparr>))) = ([], [], 0, 0)"
  by (simp add: ensureToken_def ensureToken_reuse_def sample_defs step_defs emit_def
      storeToken_def token_state_def zero_TokenResponse_def tokenBufferSeconds_def)

text \<open>
  Claim C4 at a 200 response with an empty body to the full authentication. The body does
  not decode (the decoder fails on it), so by the claim \<open>GetToken\<close> returns an error and
  leaves the four token fields as they were. The code returns no error and overwrites the
  four fields of a client that held a valid pair with those of the zero token. For every
  failure that \<open>getTokenRequest\<close> does report, the fields are left as they were
  (\<open>token_state_not_corrupted\<close> below).
\<close>

theorem GetToken_empty_body_overwrites:
  "fst (GetToken (env_sample server_empty) client_valid) = Inr zero_TokenResponse
   \<and> token_state (snd (GetToken (env_sample server_empty) client_valid)) = ([], [], 0, 0)
   \<and> token_state client_valid = (''access-abc'', ''refresh-xyz'', 1700003600, 1700007200)
   \<and> Unmarshal_Token (env_sample server_empty) [] zero_TokenResponse
       = Inl (OtherError ''unexpected end of JSON input'')"
  by (simp add: GetToken_def sample_defs step_defs emit_def storeToken_def token_state_def
      zero_TokenResponse_def)


text \<open>
  What the code does keep. A failure that the authentication step reports leaves the four
  token fields as they were and reaches the caller as an error:
  \<^item> whenever \<open>ensureToken\<close> returns an error, the token fields are unchanged; and when its
    full authentication (\<open>getTokenRequest\<close>, run in the state \<open>c3\<close> where the first part of
    \<open>ensureToken\<close> hands over) fails with \<open>err\<close>, \<open>ensureToken\<close> returns \<open>err\<close> wrapped
    and the token fields are unchanged;
  \<^item> when \<open>getTokenRequest\<close> fails, \<open>GetToken\<close> returns that error and the token fields
    are unchanged;
  \<^item> \<open>RefreshToken\<close> performs no full authentication: when its own step, the refresh
    call, fails, it returns that error and the token fields are unchanged;
  \<^item> each of the three operations either leaves the token fields unchanged or has
    succeeded and set all four from one token that a successful step has returned;
  \<^item> the token of a successful refresh call is always decoded from the body of a response
    with status in 200..299; the token of a successful full authentication is decoded from
    such a body unless the body is empty, the case in which \<open>getTokenRequest\<close> reports no
    failure and returns the zero token.
  Lemma \<open>getTokenRequest_fails\<close> above lists the failures of the step by reason: error of
  the executor, error reading the body, status outside 200..299, body that is not empty
  and does not decode.
\<close>

theorem token_state_not_corrupted:
  "(\<forall>err. fst (ensureToken E now c) = Some err \<longrightarrow>
      token_state (snd (ensureToken E now c)) = token_state c)
   \<and> (\<forall>c3 err. ensureToken_reuse E now c = (False, c3) \<and> fst (getTokenRequest E c3) = Inl err \<longrightarrow>
      fst (ensureToken E now c) = Some (WrapError ''failed to get token: '' err) \<and>
      token_state (snd (ensureToken E now c)) = token_state c)
   \<and> (\<forall>err. fst (getTokenRequest E c) = Inl err \<longrightarrow>
      fst (GetToken E c) = Inl err \<and>
      token_state (snd (GetToken E c)) = token_state c)
   \<and> (\<forall>err. fst (doRefreshTokenHTTP E (refreshToken c) c) = Inl err \<longrightarrow>
      fst (Client_RefreshToken E c) = Inl err \<and>
      token_state (snd (Client_RefreshToken E c)) = token_state c)
   \<and> (token_state (snd (ensureToken E now c)) = token_state c \<or>
      (\<exists>token. fst (ensureToken E now c) = None \<and>
         token_state (snd (ensureToken E now c)) = token_fields token \<and>
         (fst (doRefreshTokenHTTP E (refreshToken c) c) = Inr token \<or>
          (\<exists>c3. ensureToken_reuse E now c = (False, c3) \<and>
             fst (getTokenRequest E c3) = Inr token))))
   \<and> (token_state (snd (GetToken E c)) = token_state c \<or>
      (\<exists>token. fst (GetToken E c) = Inr token \<and> fst (getTokenRequest E c) = Inr token \<and>
         token_state (snd (GetToken E c)) = token_fields token))
   \<and> (token_state (snd (Client_RefreshToken E c)) = token_state c \<or>
      (\<exists>token. fst (Client_RefreshToken E c) = Inr token \<and>
         fst (doRefreshTokenHTTP E (refreshToken c) c) = Inr token \<and>
         token_state (snd (Client_RefreshToken E c)) = token_fields token))
   \<and> (\<forall>c' token. fst (getTokenRequest E c') = Inr token \<longrightarrow>
      (\<exists>status body.
         Do E (sends (trace c')) (token_request c') = Response status body \<and>
         200 \<le> status \<and> status < 300 \<and>
         (if body = [] then token = zero_TokenResponse
          else Unmarshal_Token E body zero_TokenResponse = Inr token)))
   \<and> (\<forall>token. fst (doRefreshTokenHTTP E (refreshToken c) c) = Inr token \<longrightarrow>
      (\<exists>status body.
         Do E (sends (trace c)) (refresh_request c) = Response status body \<and>
         200 \<le> status \<and> status < 300 \<and>
         Unmarshal_Token E body zero_TokenResponse = Inr token))"
proof -
  have auth_fail: "fst (ensureToken E now c) = Some (WrapError ''failed to get token: '' err) \<and>
      token_state (snd (ensureToken E now c)) = token_state c"
    if "ensureToken_reuse E now c = (False, c3)" "fst (getTokenRequest E c3) = Inl err" for c3 err
  proof -
    from ensureToken_reuse_False [OF that(1)] have "token_state c3 = token_state c" by auto
    with ensureToken_full_auth(3) [OF that] show ?thesis by simp
  qed
  obtain b c' where r: "ensureToken_reuse E now c = (b, c')"
    by (cases "ensureToken_reuse E now c")
  have all_or_nothing: "token_state (snd (ensureToken E now c)) = token_state c \<or>
      (\<exists>token. fst (ensureToken E now c) = None \<and>
         token_state (snd (ensureToken E now c)) = token_fields token \<and>
         (fst (doRefreshTokenHTTP E (refreshToken c) c) = Inr token \<or>
          (\<exists>c3. ensureToken_reuse E now c = (False, c3) \<and>
             fst (getTokenRequest E c3) = Inr token)))"
  proof (cases b)
    case True
    with r have e: "ensureToken E now c = (None, c')" by (simp add: ensureToken_def)
    from ensureToken_reuse_True [of E now c c'] r True show ?thesis
      by (auto simp: e)
  next
    case False
    with r have r': "ensureToken_reuse E now c = (False, c')" by simp
    show ?thesis
    proof (cases "fst (getTokenRequest E c')")
      case (Inl err)
      with auth_fail [OF r'] show ?thesis by simp
    next
      case (Inr token)
      with ensureToken_full_auth(2) [OF r' Inr] r' show ?thesis by blast
    qed
  qed
  have on_error: "token_state (snd (ensureToken E now c)) = token_state c"
    if "fst (ensureToken E now c) = Some err" for err
    using all_or_nothing that by auto
  have p1: "\<forall>err. fst (ensureToken E now c) = Some err \<longrightarrow>
      token_state (snd (ensureToken E now c)) = token_state c"
    using on_error by blast
  have p2: "\<forall>c3 err. ensureToken_reuse E now c = (False, c3) \<and> fst (getTokenRequest E c3) = Inl err \<longrightarrow>
      fst (ensureToken E now c) = Some (WrapError ''failed to get token: '' err) \<and>
      token_state (snd (ensureToken E now c)) = token_state c"
    using auth_fail by blast
  have p3: "\<forall>err. fst (getTokenRequest E c) = Inl err \<longrightarrow>
      fst (GetToken E c) = Inl err \<and>
      token_state (snd (GetToken E c)) = token_state c"
    using GetToken_cases [of E c] by blast
  have p4: "\<forall>err. fst (doRefreshTokenHTTP E (refreshToken c) c) = Inl err \<longrightarrow>
      fst (Client_RefreshToken E c) = Inl err \<and>
      token_state (snd (Client_RefreshToken E c)) = token_state c"
    using Client_RefreshToken_cases [of E c] by blast
  have p6: "token_state (snd (GetToken E c)) = token_state c \<or>
      (\<exists>token. fst (GetToken E c) = Inr token \<and> fst (getTokenRequest E c) = Inr token \<and>
         token_state (snd (GetToken E c)) = token_fields token)"
    using GetToken_cases [of E c] by (cases "fst (getTokenRequest E c)") auto
  have p7: "token_state (snd (Client_RefreshToken E c)) = token_state c \<or>
      (\<exists>token. fst (Client_RefreshToken E c) = Inr token \<and>
         fst (doRefreshTokenHTTP E (refreshToken c) c) = Inr token \<and>
         token_state (snd (Client_RefreshToken E c)) = token_fields token)"
    using Client_RefreshToken_cases [of E c]
    by (cases "fst (doRefreshTokenHTTP E (refreshToken c) c)") auto
  have p8: "\<forall>c' token. fst (getTokenRequest E c') = Inr token \<longrightarrow>
      (\<exists>status body.
         Do E (sends (trace c')) (token_request c') = Response status body \<and>
         200 \<le> status \<and> status < 300 \<and>
         (if body = [] then token = zero_TokenResponse
          else Unmarshal_Token E body zero_TokenResponse = Inr token))"
    using getTokenRequest_token [of E] by blast
  have p9: "\<forall>token. fst (doRefreshTokenHTTP E (refreshToken c) c) = Inr token \<longrightarrow>
      (\<exists>status body.
         Do E (sends (trace c)) (refresh_request c) = Response status body \<and>
         200 \<le> status \<and> status < 300 \<and>
         Unmarshal_Token E body zero_TokenResponse = Inr token)"
    using doRefreshTokenHTTP_token [of E c] by blast
  show ?thesis
    by (intro conjI) (fact p1 p2 p3 p4 all_or_nothing p6 p7 p8 p9)+
qed


theorem token_state_not_corrupted_witness:
  "fst (ensureToken (env_sample server_auth_401) 1700000000 client_expired) =
     Some (WrapError ''failed to get token: '' (ErrorPtr (Some error_401)))
   \<and> token_state (snd (ensureToken (env_sample server_auth_401) 1700000000 client_expired)) =
       (''access-old'', ''refresh-old'', 1699999900, 1700007200)
   \<and> fst (getTokenRequest (env_sample server_auth_401) client_expired) =
       Inl (ErrorPtr (Some error_401))
   \<and> fst (GetToken (env_sample server_auth_401) client_expired) =
       Inl (ErrorPtr (Some error_401))
   \<and> token_state (snd (GetToken (env_sample server_auth_401) client_expired)) =
       (''access-old'', ''refresh-old'', 1699999900, 1700007200)
   \<and> fst (doRefreshTokenHTTP (env_sample server_auth_401) (refreshToken client_expired)
        client_expired) = Inl (ErrorPtr (Some error_401))
   \<and> fst (Client_RefreshToken (env_sample server_auth_401) client_expired) =
       Inl (ErrorPtr (Some error_401))
   \<and> token_state (snd (Client_RefreshToken (env_sample server_auth_401) client_expired)) =
       (''access-old'', ''refresh-old'', 1699999900, 1700007200)"
proof -
  let ?E = "env_sample server_auth_401"
  note inst = token_state_not_corrupted [where E = ?E and now = 1700000000 and c = client_expired]
  from inst server_auth_401_ensureToken
  have a: "token_state (snd (ensureToken ?E 1700000000 client_expired)) = token_state client_expired"
    by blast
  from inst server_auth_401_getTokenRequest
  have b: "fst (GetToken ?E client_expired) = Inl (ErrorPtr (Some error_401)) \<and>
      token_state (snd (GetToken ?E client_expired)) = token_state client_expired"
    by blast
  from inst server_auth_401_refresh
  have c: "fst (Client_RefreshToken ?E client_expired) = Inl (ErrorPtr (Some error_401)) \<and>
      token_state (snd (Client_RefreshToken ?E client_expired)) = token_state client_expired"
    by blast
  from a b c show ?thesis
    by (simp only: server_auth_401_ensureToken server_auth_401_getTokenRequest
        server_auth_401_refresh client_expired_token_state simp_thms)
qed

subsection \<open>The expiry fields\<close>

lemma sint_minus_30:
  fixes e :: "64 word"
  assumes "- 9223372036854775778 \<le> sint e"
  shows "sint (e - 30) = sint e - 30"
proof -
  have up: "sint e < 2 ^ 63"
    using sint_lt [of e] by simp
  have "sint (e - 30) = signed_take_bit 63 (sint e - sint (30 :: 64 word))"
    by (simp add: sint_word_ariths)
  also have "sint (30 :: 64 word) = 30" by simp
  also have "signed_take_bit 63 (sint e - 30) = sint e - 30"
    using assms up by (intro signed_take_bit_int_eq_self) simp_all
  finally show ?thesis .
qed

lemma sless_minus_30:
  fixes now e :: "64 word"
  assumes "- 9223372036854775778 \<le> sint e"
  shows "now <s e - tokenBufferSeconds \<longleftrightarrow> sint now < sint e - 30"
  using sint_minus_30 [OF assms] by (simp add: word_sless_alt tokenBufferSeconds_def)

lemma ensureToken_reuse_stale_trace:
  assumes "\<not> access_fresh now c"
  shows "\<exists>es. trace (snd (ensureToken_reuse E now c)) = trace c @ es \<and> Read F_refreshToken \<in> set es"
proof (cases "canRefresh now c")
  case False
  with assms show ?thesis
    by (simp add: ensureToken_reuse_stale_norefresh)
next
  case True
  let ?c2 = "emit (pre_refresh c) c"
  obtain r c3 where d: "doRefreshTokenHTTP E (refreshToken c) ?c2 = (r, c3)"
    by (cases "doRefreshTokenHTTP E (refreshToken c) ?c2")
  have "\<exists>es. trace c3 = trace c @ pre_refresh c @ es"
    using doRefreshTokenHTTP_snd [of E "refreshToken c" ?c2] d by simp
  then obtain es where es: "trace c3 = trace c @ pre_refresh c @ es" by blast
  have m: "Read F_refreshToken \<in> set (pre_refresh c)"
    by (simp add: pre_refresh_def)
  show ?thesis
  proof (cases r)
    case (Inl err)
    with assms True d have "snd (ensureToken_reuse E now c) = c3"
      by (simp add: ensureToken_reuse_refresh)
    with es m show ?thesis by simp
  next
    case (Inr token)
    with assms True d have "snd (ensureToken_reuse E now c) =
        emit [Unlock] (storeToken token (emit [Lock] c3))"
      by (simp add: ensureToken_reuse_refresh)
    with es m show ?thesis by simp
  qed
qed

lemma ensureToken_trace_extends:
  "\<exists>es. trace (snd (ensureToken E now c)) = trace (snd (ensureToken_reuse E now c)) @ es"
proof -
  obtain b c' where r: "ensureToken_reuse E now c = (b, c')"
    by (cases "ensureToken_reuse E now c")
  show ?thesis
  proof (cases b)
    case True
    with r show ?thesis by (simp add: ensureToken_def)
  next
    case False
    obtain g c4 where g: "getTokenRequest E c' = (g, c4)"
      by (cases "getTokenRequest E c'")
    have "\<exists>es. trace c4 = trace c' @ es"
      using getTokenRequest_snd [of E c'] g by simp
    with r False g show ?thesis
      by (cases g) (auto simp: ensureToken_def)
  qed
qed

lemma stale_not_cache_hit:
  assumes "\<not> access_fresh now c"
  shows "ensureToken E now c \<noteq> (None, emit [Lock, Read F_accessToken, Read F_expiresAt, Unlock] c)"
proof
  assume e: "ensureToken E now c = (None, emit [Lock, Read F_accessToken, Read F_expiresAt, Unlock] c)"
  from ensureToken_reuse_stale_trace [OF assms, of E] obtain es where
    es: "trace (snd (ensureToken_reuse E now c)) = trace c @ es" "Read F_refreshToken \<in> set es"
    by blast
  from ensureToken_trace_extends [of E now c] obtain es' where
    "trace (snd (ensureToken E now c)) = trace (snd (ensureToken_reuse E now c)) @ es'"
    by blast
  with es(1) e have "trace c @ [Lock, Read F_accessToken, Read F_expiresAt, Unlock] = trace c @ es @ es'"
    by simp
  then have "[Lock, Read F_accessToken, Read F_expiresAt, Unlock] = es @ es'"
    by simp
  then have "Read F_refreshToken \<in> set [Lock, Read F_accessToken, Read F_expiresAt, Unlock]"
    using es(2) by (metis Un_iff set_append)
  then show False by simp
qed

lemma NewClient_getTokenRequest:
  "fst (getTokenRequest (env_sample server_ok) (NewClient cfg_sample)) = Inr token_abc"
  by (simp add: sample_defs step_defs emit_def)

lemma client_valid_check: "accessToken client_valid \<noteq> [] \<and> 1700000000 <s expiresAt client_valid - 30"
  by (simp add: client_valid_def)

lemma client_expired_check:
  "\<not> (accessToken client_expired \<noteq> [] \<and> 1700000000 <s expiresAt client_expired - 30)"
  "refreshToken client_expired \<noteq> [] \<and> 1700000000 <s refreshExpiresAt client_expired - 30"
  by (simp_all add: client_expired_def)

lemma client_valid_sint: "- 9223372036854775778 \<le> sint (expiresAt client_valid)"
  by (simp add: client_valid_def)


text \<open>
  Claim C7. The fields \<^verbatim>\<open>expires_in\<close> and \<^verbatim>\<open>refresh_expires_in\<close> of a token response are
  taken as points in time: \<open>storeToken\<close> puts the two values into \<open>expiresAt\<close> and
  \<open>refreshExpiresAt\<close> as they are (no clock value takes part; so does \<open>GetToken\<close>), and
  the checks of \<open>ensureToken\<close> compare the clock with the stored value minus 30:
  \<open>ensureToken\<close> returns at once exactly when the access token is not empty and
  \<open>now < expiresAt - 30\<close>; otherwise the refresh request is what its first part sends when
  the refresh token is not empty and \<open>now < refreshExpiresAt - 30\<close>, and it sends nothing
  and hands over to the full authentication when not. The comparisons are Go's, on
  \<^verbatim>\<open>int64\<close>; for a stored value of at least \<open>-2^63 + 30\<close> they are the comparisons of the
  integers.
\<close>

theorem expiry_fields_are_timestamps:
  "expiresAt (storeToken token c) = ExpiresIn token
   \<and> refreshExpiresAt (storeToken token c) = RefreshExpiresIn token
   \<and> (\<forall>t. fst (getTokenRequest E c) = Inr t \<longrightarrow>
        expiresAt (snd (GetToken E c)) = ExpiresIn t \<and>
        refreshExpiresAt (snd (GetToken E c)) = RefreshExpiresIn t)
   \<and> (ensureToken E now c = (None, emit [Lock, Read F_accessToken, Read F_expiresAt, Unlock] c)
        \<longleftrightarrow> accessToken c \<noteq> [] \<and> now <s expiresAt c - 30)
   \<and> (\<not> (accessToken c \<noteq> [] \<and> now <s expiresAt c - 30) \<longrightarrow>
        (if refreshToken c \<noteq> [] \<and> now <s refreshExpiresAt c - 30
         then sent_between c (snd (ensureToken_reuse E now c)) (refresh_sent E c)
         else \<not> fst (ensureToken_reuse E now c) \<and>
              sent_between c (snd (ensureToken_reuse E now c)) []))
   \<and> (- 9223372036854775778 \<le> sint (expiresAt c) \<longrightarrow>
        (now <s expiresAt c - 30 \<longleftrightarrow> sint now < sint (expiresAt c) - 30))
   \<and> (- 9223372036854775778 \<le> sint (refreshExpiresAt c) \<longrightarrow>
        (now <s refreshExpiresAt c - 30 \<longleftrightarrow> sint now < sint (refreshExpiresAt c) - 30))"
proof -
  have fresh: "access_fresh now c \<longleftrightarrow> accessToken c \<noteq> [] \<and> now <s expiresAt c - 30"
    by (simp add: access_fresh_def tokenBufferSeconds_def)
  have can: "canRefresh now c \<longleftrightarrow> refreshToken c \<noteq> [] \<and> now <s refreshExpiresAt c - 30"
    by (simp add: canRefresh_def tokenBufferSeconds_def)
  have p1: "expiresAt (storeToken token c) = ExpiresIn token"
    and p2: "refreshExpiresAt (storeToken token c) = RefreshExpiresIn token"
    by (simp_all add: storeToken_def)
  have p3: "\<forall>t. fst (getTokenRequest E c) = Inr t \<longrightarrow>
        expiresAt (snd (GetToken E c)) = ExpiresIn t \<and>
        refreshExpiresAt (snd (GetToken E c)) = RefreshExpiresIn t"
    using GetToken_cases [of E c] by (auto simp: token_state_def token_fields_def)
  have p4: "ensureToken E now c = (None, emit [Lock, Read F_accessToken, Read F_expiresAt, Unlock] c)
        \<longleftrightarrow> accessToken c \<noteq> [] \<and> now <s expiresAt c - 30"
    using ensureToken_fresh [of now c E] stale_not_cache_hit [of now c E] fresh by blast
  have p5: "\<not> (accessToken c \<noteq> [] \<and> now <s expiresAt c - 30) \<longrightarrow>
        (if refreshToken c \<noteq> [] \<and> now <s refreshExpiresAt c - 30
         then sent_between c (snd (ensureToken_reuse E now c)) (refresh_sent E c)
         else \<not> fst (ensureToken_reuse E now c) \<and>
              sent_between c (snd (ensureToken_reuse E now c)) [])"
  proof
    assume "\<not> (accessToken c \<noteq> [] \<and> now <s expiresAt c - 30)"
    then have stale: "\<not> access_fresh now c" using fresh by simp
    show "if refreshToken c \<noteq> [] \<and> now <s refreshExpiresAt c - 30
         then sent_between c (snd (ensureToken_reuse E now c)) (refresh_sent E c)
         else \<not> fst (ensureToken_reuse E now c) \<and>
              sent_between c (snd (ensureToken_reuse E now c)) []"
    proof (cases "canRefresh now c")
      case False
      with stale can show ?thesis
        by (auto simp add: ensureToken_reuse_stale_norefresh sent_between_def)
    next
      case True
      let ?c2 = "emit (pre_refresh c) c"
      obtain r c3 where d: "doRefreshTokenHTTP E (refreshToken c) ?c2 = (r, c3)"
        by (cases "doRefreshTokenHTTP E (refreshToken c) ?c2")
      have "sends (trace c3) = sends (trace c) @ refresh_sent E c"
        using doRefreshTokenHTTP_snd [of E "refreshToken c" ?c2] d
        by (simp add: refresh_sent_def refresh_request_def)
      with stale True d have "sent_between c (snd (ensureToken_reuse E now c)) (refresh_sent E c)"
        by (cases r) (simp_all add: ensureToken_reuse_refresh sent_between_def)
      with True can show ?thesis by simp
    qed
  qed
  have p6: "- 9223372036854775778 \<le> sint (expiresAt c) \<longrightarrow>
        (now <s expiresAt c - 30 \<longleftrightarrow> sint now < sint (expiresAt c) - 30)"
    and p7: "- 9223372036854775778 \<le> sint (refreshExpiresAt c) \<longrightarrow>
        (now <s refreshExpiresAt c - 30 \<longleftrightarrow> sint now < sint (refreshExpiresAt c) - 30)"
    using sless_minus_30 by (simp_all add: tokenBufferSeconds_def)
  show ?thesis
    by (intro conjI) (fact p1 p2 p3 p4 p5 p6 p7)+
qed


theorem expiry_fields_are_timestamps_witness:
  "fst (getTokenRequest (env_sample server_ok) (NewClient cfg_sample)) = Inr token_abc
   \<and> expiresAt (snd (GetToken (env_sample server_ok) (NewClient cfg_sample))) = 1700003600
   \<and> refreshExpiresAt (snd (GetToken (env_sample server_ok) (NewClient cfg_sample)))
       = 1700007200
   \<and> (accessToken client_valid \<noteq> [] \<and> 1700000000 <s expiresAt client_valid - 30)
   \<and> ensureToken (env_sample server_ok) 1700000000 client_valid =
       (None, emit [Lock, Read F_accessToken, Read F_expiresAt, Unlock] client_valid)
   \<and> \<not> (accessToken client_expired \<noteq> [] \<and> 1700000000 <s expiresAt client_expired - 30)
   \<and> (refreshToken client_expired \<noteq> [] \<and> 1700000000 <s refreshExpiresAt client_expired - 30)
   \<and> sent_between client_expired
       (snd (ensureToken_reuse (env_sample server_ok) 1700000000 client_expired))
       [refresh_request client_expired]
   \<and> - 9223372036854775778 \<le> sint (expiresAt client_valid)
   \<and> sint (1700000000 :: 64 word) < sint (expiresAt client_valid) - 30"
proof -
  let ?E = "env_sample server_ok"
  note g = expiry_fields_are_timestamps [where E = ?E and c = "NewClient cfg_sample" and token = token_abc
      and now = 1700000000]
  note v = expiry_fields_are_timestamps [where E = ?E and c = client_valid and token = token_abc and now = 1700000000]
  note x = expiry_fields_are_timestamps [where E = ?E and c = client_expired and token = token_abc and now = 1700000000]
  from g NewClient_getTokenRequest
  have a: "expiresAt (snd (GetToken ?E (NewClient cfg_sample))) = ExpiresIn token_abc \<and>
      refreshExpiresAt (snd (GetToken ?E (NewClient cfg_sample))) = RefreshExpiresIn token_abc"
    by blast
  from v client_valid_check
  have b: "ensureToken ?E 1700000000 client_valid =
       (None, emit [Lock, Read F_accessToken, Read F_expiresAt, Unlock] client_valid)"
    by blast
  from x client_expired_check
  have c: "sent_between client_expired (snd (ensureToken_reuse ?E 1700000000 client_expired))
      (refresh_sent ?E client_expired)"
    by (simp only: simp_thms if_True)
  have rs: "refresh_sent ?E client_expired = [refresh_request client_expired]"
    by (simp add: refresh_sent_def env_sample_def)
  from v client_valid_sint client_valid_check
  have d: "sint (1700000000 :: 64 word) < sint (expiresAt client_valid) - 30"
    by blast
  from a b c d show ?thesis
    using NewClient_getTokenRequest client_valid_check client_expired_check client_valid_sint rs
    by (simp add: token_abc_def)
qed



section \<open>Errors and requests\<close>

text \<open>
  Claim C10, as stated, fails: for an error value of dynamic type \<^verbatim>\<open>*Error\<close> that holds the
  nil pointer, \<open>IsQPayError\<close> returns the nil pointer together with true, which is neither
  a non-nil \<^verbatim>\<open>*Error\<close> with true nor \<open>(nil, false)\<close>.
\<close>

theorem IsQPayError_nil_pointer:
  "\<not> (fst (IsQPayError (Some (ErrorPtr None))) \<noteq> None \<and> snd (IsQPayError (Some (ErrorPtr None))))
   \<and> IsQPayError (Some (ErrorPtr None)) \<noteq> (None, False)"
  by simp

text \<open>
  Claim C10, amended. \<open>IsQPayError err\<close> returns true exactly when \<open>err\<close> is not nil and
  its dynamic type is \<^verbatim>\<open>*Error\<close>, and it then returns the pointer that \<open>err\<close> holds; this
  pointer is not nil exactly when \<open>err\<close> holds a pointer to a struct. For the nil error, for
  an error of another type and for an error that wraps a \<^verbatim>\<open>*Error\<close> it returns
  \<open>(nil, false)\<close>: it asserts the type and never unwraps.
\<close>

theorem IsQPayError_type_assertion:
  "IsQPayError e = (case e of Some (ErrorPtr p) \<Rightarrow> (p, True) | _ \<Rightarrow> (None, False))
   \<and> (snd (IsQPayError e) \<longleftrightarrow> (\<exists>p. e = Some (ErrorPtr p)))
   \<and> ((fst (IsQPayError e) \<noteq> None \<and> snd (IsQPayError e)) \<longleftrightarrow> (\<exists>q. e = Some (ErrorPtr (Some q))))
   \<and> IsQPayError (Some (ErrorPtr (Some q))) = (Some q, True)
   \<and> IsQPayError (Some (ErrorPtr None)) = (None, True)
   \<and> IsQPayError None = (None, False)
   \<and> IsQPayError (Some (OtherError msg)) = (None, False)
   \<and> IsQPayError (Some (WrapError prefix (ErrorPtr (Some q)))) = (None, False)"
  by (cases e rule: IsQPayError.cases) auto

subsection \<open>The exchange of \<open>doRequest\<close> and the error of each path\<close>

lemma doRequest_ensureToken_error:
  "fst (ensureToken E now c) = Some err \<Longrightarrow>
     fst (doRequest E now method path marshal body unmarshal result c) = Inl err"
  by (cases "ensureToken E now c") (simp add: doRequest_def)

lemma doRequest_exchange:
  assumes "ensureToken E now c = (None, c1)"
    and "marshal_body marshal body = Inr bodyReader"
    and "NewRequest E method (BaseURL (config c1) @ path) = None"
  shows "Do E (sends (trace c1)) (domain_request method path bodyReader c1) = DoFails e \<Longrightarrow>
           fst (doRequest E now method path marshal body unmarshal result c) =
             Inl (WrapError ''request failed: '' e)"
    and "Do E (sends (trace c1)) (domain_request method path bodyReader c1) = ReadFails status e \<Longrightarrow>
           fst (doRequest E now method path marshal body unmarshal result c) =
             Inl (WrapError ''failed to read response body: '' e)"
    and "Do E (sends (trace c1)) (domain_request method path bodyReader c1) = Response status respBody \<Longrightarrow>
           status < 200 \<or> 300 \<le> status \<Longrightarrow>
           \<exists>qErr. fst (doRequest E now method path marshal body unmarshal result c) =
                    Inl (ErrorPtr (Some qErr)) \<and>
              StatusCode qErr = status \<and> RawBody qErr = respBody \<and>
              Code qErr = (case fst (Unmarshal_Error E respBody) of
                             None \<Rightarrow> StatusText E status
                           | Some v \<Rightarrow> if v = [] then StatusText E status else v) \<and>
              Message qErr = (case snd (Unmarshal_Error E respBody) of
                             None \<Rightarrow> respBody
                           | Some v \<Rightarrow> if v = [] then respBody else v)"
    and "trace (snd (doRequest E now method path marshal body unmarshal result c)) =
           trace c1 @ [Read F_accessToken, Send (domain_request method path bodyReader c1)]"
  using assms
  by (auto simp add: doRequest_def domain_request_def json_Unmarshal_Error_def Let_def
      split: http_result.splits option.splits sum.splits prod.splits)

lemma doBasicAuthRequest_error:
  assumes "NewRequest E method (BaseURL (config c) @ path) = None"
    and "Do E (sends (trace c))
           \<lparr>Method = method, URL = BaseURL (config c) @ path, Body = None,
            Headers = [SetBasicAuth (Username (config c)) (Password (config c))]\<rparr>
         = Response status respBody"
    and "status < 200 \<or> 300 \<le> status"
  shows "\<exists>qErr. fst (doBasicAuthRequest E method path unmarshal result c) =
                    Inl (ErrorPtr (Some qErr)) \<and>
              StatusCode qErr = status \<and> RawBody qErr = respBody \<and>
              Code qErr = (case fst (Unmarshal_Error E respBody) of
                             None \<Rightarrow> StatusText E status
                           | Some v \<Rightarrow> if v = [] then StatusText E status else v) \<and>
              Message qErr = (case snd (Unmarshal_Error E respBody) of
                             None \<Rightarrow> respBody
                           | Some v \<Rightarrow> if v = [] then respBody else v)"
  using assms
  by (auto simp add: doBasicAuthRequest_def json_Unmarshal_Error_def Let_def
      split: option.splits prod.splits)

lemma doRefreshTokenHTTP_error:
  assumes "NewRequest E ''POST'' (BaseURL (config c) @ ''/v2/auth/refresh'') = None"
    and "Do E (sends (trace c))
           \<lparr>Method = ''POST'', URL = BaseURL (config c) @ ''/v2/auth/refresh'', Body = None,
            Headers = [Set ''Authorization'' (''Bearer '' @ refreshTok)]\<rparr>
         = Response status respBody"
    and "status < 200 \<or> 300 \<le> status"
  shows "\<exists>qErr. fst (doRefreshTokenHTTP E refreshTok c) = Inl (ErrorPtr (Some qErr)) \<and>
              StatusCode qErr = status \<and> RawBody qErr = respBody \<and>
              Code qErr = (case fst (Unmarshal_Error E respBody) of None \<Rightarrow> [] | Some v \<Rightarrow> v) \<and>
              Message qErr = (case snd (Unmarshal_Error E respBody) of None \<Rightarrow> [] | Some v \<Rightarrow> v)"
  using assms
  by (auto simp add: doRefreshTokenHTTP_def json_Unmarshal_Error_def Let_def
      split: option.splits prod.splits)

lemma doRequest_marshal_fails:
  assumes "ensureToken E now c = (None, c1)" and "marshal_body marshal body = Inl e"
  shows "fst (doRequest E now method path marshal body unmarshal result c) =
           Inl (WrapError ''failed to marshal request body: '' e)"
  using assms by (simp add: doRequest_def)

lemma doRequest_create_fails:
  assumes "ensureToken E now c = (None, c1)" and "marshal_body marshal body = Inr bodyReader"
    and "NewRequest E method (BaseURL (config c1) @ path) = Some e"
  shows "fst (doRequest E now method path marshal body unmarshal result c) =
           Inl (WrapError ''failed to create request: '' e)"
  using assms by (simp add: doRequest_def Let_def)

lemma doRequest_unmarshal_fails:
  assumes "ensureToken E now c = (None, c1)" and "marshal_body marshal body = Inr bodyReader"
    and "NewRequest E method (BaseURL (config c1) @ path) = None"
    and "Do E (sends (trace c1)) (domain_request method path bodyReader c1) = Response status respBody"
    and "200 \<le> status" "status < 300" "respBody \<noteq> []" "result = Some r"
    and "unmarshal respBody r = Inl e"
  shows "fst (doRequest E now method path marshal body unmarshal result c) =
           Inl (WrapError ''failed to unmarshal response: '' e)"
  using assms by (simp add: doRequest_def domain_request_def Let_def)


lemma GetPayment_error:
  "fst (GetPayment E now unmarshal resp paymentID c) = Inl err \<longleftrightarrow>
   fst (doRequest E now ''GET'' (''/v2/payment/'' @ paymentID) marshal_nil None
             unmarshal (Some resp) c) = Inl err"
  by (auto simp: GetPayment_def split: prod.splits sum.splits)

lemma CreateInvoice_error:
  "fst (CreateInvoice E now marshal unmarshal resp req c) = Inl err \<longleftrightarrow>
   fst (doRequest E now ''POST'' ''/v2/invoice'' marshal (Some req) unmarshal (Some resp) c) = Inl err"
  by (auto simp: CreateInvoice_def split: prod.splits sum.splits)


lemmas request_defs = doRequest_def ensureToken_def ensureToken_reuse_def marshal_body_def
  GetPayment_def CreateInvoice_def emit_def tokenBufferSeconds_def Unmarshal_raw_def

lemma server_auth_401_reuse:
  "ensureToken_reuse (env_sample server_auth_401) 1700000000 client_expired =
     (False, emit [Lock, Read F_accessToken, Read F_expiresAt, Read F_refreshToken,
        Read F_refreshExpiresAt, Read F_refreshToken, Unlock, Send (refresh_request client_expired)]
        client_expired)"
  using ensureToken_reuse_refresh_fail
      [OF client_expired_stale client_expired_canRefresh server_auth_401_refresh]
  by (simp add: pre_refresh_def refresh_sent_def) (simp add: sample_defs)

lemma server_auth_401_auth:
  "fst (getTokenRequest (env_sample server_auth_401)
     (emit [Lock, Read F_accessToken, Read F_expiresAt, Read F_refreshToken,
        Read F_refreshExpiresAt, Read F_refreshToken, Unlock, Send (refresh_request client_expired)]
        client_expired)) = Inl (ErrorPtr (Some error_401))"
  by (simp add: sample_defs step_defs emit_def error_401_def)

lemma client_valid_ensureToken:
  "ensureToken E 1700000000 client_valid =
     (None, emit [Lock, Read F_accessToken, Read F_expiresAt, Unlock] client_valid)"
  by (rule ensureToken_fresh [OF client_valid_fresh])

lemma server_404_GetPayment:
  "fst (doRequest (env_sample server_404) 1700000000 ''GET'' ''/v2/payment/p1''
          marshal_nil None Unmarshal_raw (Some []) client_valid)
     = Inl (ErrorPtr (Some error_404))"
  by (simp add: request_defs sample_defs step_defs error_404_def)

lemma server_down_GetPayment:
  "Do (env_sample server_down)
      (sends (trace (emit [Lock, Read F_accessToken, Read F_expiresAt, Unlock] client_valid)))
      (domain_request ''GET'' ''/v2/payment/p1'' None
         (emit [Lock, Read F_accessToken, Read F_expiresAt, Unlock] client_valid))
     = DoFails (OtherError ''connection refused'')"
  by (simp add: sample_defs)


text \<open>
  The same refusal on the sibling path: \<open>GetToken\<close> returns the \<^verbatim>\<open>*Error\<close> of a 401 as
  it is, and \<open>IsQPayError\<close> recovers it.
\<close>

lemma GetToken_auth_failure_bare:
  "fst (GetToken (env_sample server_auth_401) client_expired) = Inl (ErrorPtr (Some error_401))
   \<and> IsQPayError (Some (ErrorPtr (Some error_401))) = (Some error_401, True)"
  by (simp add: GetToken_def sample_defs step_defs emit_def error_401_def)

text \<open>
  Claim C5 at a full authentication that fails inside a domain operation. By the claim the
  failure propagates unchanged, so that the caller of \<open>GetPayment\<close> recovers the
  \<^verbatim>\<open>*Error\<close> of the 401 with \<open>IsQPayError\<close>. The code returns that error wrapped by
  \<^verbatim>\<open>fmt.Errorf("failed to get token: %w", err)\<close>, a value other than the error itself,
  and \<open>IsQPayError\<close> returns \<open>(nil, false)\<close> on it.
\<close>

theorem GetPayment_auth_failure_wrapped:
  "fst (GetPayment (env_sample server_auth_401) 1700000000 Unmarshal_raw [] ''p1'' client_expired)
     = Inl (WrapError ''failed to get token: '' (ErrorPtr (Some error_401)))
   \<and> IsQPayError (Some (WrapError ''failed to get token: '' (ErrorPtr (Some error_401))))
     = (None, False)
   \<and> WrapError ''failed to get token: '' (ErrorPtr (Some error_401)) \<noteq> ErrorPtr (Some error_401)"
  by (simp add: request_defs sample_defs step_defs error_401_def)

text \<open>
  Every failure of \<open>doRequest\<close>, and so of the domain operations built on it
  (\<open>GetPayment\<close> and \<open>CreateInvoice\<close> return the error of \<open>doRequest\<close> as it is):
  \<^item> a failure \<open>e\<close> of the full authentication inside \<open>ensureToken\<close> reaches the caller
    wrapped once, with the prefix \<^verbatim>\<open>failed to get token: \<close>; \<open>IsQPayError\<close> returns
    \<open>(nil, false)\<close> on it, and \<open>e\<close> is what \<^verbatim>\<open>errors.Unwrap\<close> yields;
  \<^item> a failure \<open>e\<close> of the executor on the domain request reaches the caller wrapped once,
    with the prefix \<^verbatim>\<open>request failed: \<close>;
  \<^item> a response to the domain request with a status outside 200..299 reaches the caller
    as the \<^verbatim>\<open>*Error\<close> built from it, unwrapped, with that status and that body, and
    \<open>IsQPayError\<close> recovers exactly this value;
  \<^item> a failure \<open>e\<close> of the encoder of the body, of \<^verbatim>\<open>http.NewRequestWithContext\<close>, of
    reading the response body, or of the decoder of a body that is not empty, reaches the
    caller wrapped once, each with its own prefix.
\<close>

theorem doRequest_error_propagation:
  "(\<forall>c3 e. ensureToken_reuse E now c = (False, c3) \<and> fst (getTokenRequest E c3) = Inl e \<longrightarrow>
       fst (doRequest E now method path marshal body unmarshal result c) =
         Inl (WrapError ''failed to get token: '' e)
       \<and> IsQPayError (Some (WrapError ''failed to get token: '' e)) = (None, False)
       \<and> Unwrap (WrapError ''failed to get token: '' e) = Some e)
   \<and> (\<forall>c1 bodyReader e.
         ensureToken E now c = (None, c1) \<and> marshal_body marshal body = Inr bodyReader \<and>
         NewRequest E method (BaseURL (config c1) @ path) = None \<and>
         Do E (sends (trace c1)) (domain_request method path bodyReader c1) = DoFails e \<longrightarrow>
       fst (doRequest E now method path marshal body unmarshal result c) =
         Inl (WrapError ''request failed: '' e)
       \<and> IsQPayError (Some (WrapError ''request failed: '' e)) = (None, False)
       \<and> Unwrap (WrapError ''request failed: '' e) = Some e)
   \<and> (\<forall>c1 bodyReader status respBody.
         ensureToken E now c = (None, c1) \<and> marshal_body marshal body = Inr bodyReader \<and>
         NewRequest E method (BaseURL (config c1) @ path) = None \<and>
         Do E (sends (trace c1)) (domain_request method path bodyReader c1) = Response status respBody \<and>
         (status < 200 \<or> 300 \<le> status) \<longrightarrow>
       (\<exists>qErr. fst (doRequest E now method path marshal body unmarshal result c) =
                 Inl (ErrorPtr (Some qErr))
          \<and> StatusCode qErr = status \<and> RawBody qErr = respBody
          \<and> IsQPayError (Some (ErrorPtr (Some qErr))) = (Some qErr, True)))
   \<and> (fst (GetPayment E now unmarshal resp paymentID c) = Inl err \<longleftrightarrow>
        fst (doRequest E now ''GET'' (''/v2/payment/'' @ paymentID) marshal_nil None
               unmarshal (Some resp) c) = Inl err)
   \<and> (fst (CreateInvoice E now marshal unmarshal resp req c) = Inl err \<longleftrightarrow>
        fst (doRequest E now ''POST'' ''/v2/invoice'' marshal (Some req) unmarshal (Some resp) c)
          = Inl err)
   \<and> (\<forall>c1 e. ensureToken E now c = (None, c1) \<and> marshal_body marshal body = Inl e \<longrightarrow>
       fst (doRequest E now method path marshal body unmarshal result c) =
         Inl (WrapError ''failed to marshal request body: '' e))
   \<and> (\<forall>c1 bodyReader e.
         ensureToken E now c = (None, c1) \<and> marshal_body marshal body = Inr bodyReader \<and>
         NewRequest E method (BaseURL (config c1) @ path) = Some e \<longrightarrow>
       fst (doRequest E now method path marshal body unmarshal result c) =
         Inl (WrapError ''failed to create request: '' e))
   \<and> (\<forall>c1 bodyReader status e.
         ensureToken E now c = (None, c1) \<and> marshal_body marshal body = Inr bodyReader \<and>
         NewRequest E method (BaseURL (config c1) @ path) = None \<and>
         Do E (sends (trace c1)) (domain_request method path bodyReader c1) = ReadFails status e \<longrightarrow>
       fst (doRequest E now method path marshal body unmarshal result c) =
         Inl (WrapError ''failed to read response body: '' e))
   \<and> (\<forall>c1 bodyReader status respBody r e.
         ensureToken E now c = (None, c1) \<and> marshal_body marshal body = Inr bodyReader \<and>
         NewRequest E method (BaseURL (config c1) @ path) = None \<and>
         Do E (sends (trace c1)) (domain_request method path bodyReader c1) = Response status respBody \<and>
         200 \<le> status \<and> status < 300 \<and> respBody \<noteq> [] \<and> result = Some r \<and>
         unmarshal respBody r = Inl e \<longrightarrow>
       fst (doRequest E now method path marshal body unmarshal result c) =
         Inl (WrapError ''failed to unmarshal response: '' e))"
proof -
  have p1: "\<forall>c3 e. ensureToken_reuse E now c = (False, c3) \<and> fst (getTokenRequest E c3) = Inl e \<longrightarrow>
       fst (doRequest E now method path marshal body unmarshal result c) =
         Inl (WrapError ''failed to get token: '' e)
       \<and> IsQPayError (Some (WrapError ''failed to get token: '' e)) = (None, False)
       \<and> Unwrap (WrapError ''failed to get token: '' e) = Some e"
  proof (intro allI impI)
    fix c3 e
    assume a: "ensureToken_reuse E now c = (False, c3) \<and> fst (getTokenRequest E c3) = Inl e"
    then have "fst (ensureToken E now c) = Some (WrapError ''failed to get token: '' e)"
      using ensureToken_full_auth(3) [of E now c c3 e] by simp
    then show "fst (doRequest E now method path marshal body unmarshal result c) =
         Inl (WrapError ''failed to get token: '' e)
       \<and> IsQPayError (Some (WrapError ''failed to get token: '' e)) = (None, False)
       \<and> Unwrap (WrapError ''failed to get token: '' e) = Some e"
      by (simp add: doRequest_ensureToken_error)
  qed
  have p2: "\<forall>c1 bodyReader e.
         ensureToken E now c = (None, c1) \<and> marshal_body marshal body = Inr bodyReader \<and>
         NewRequest E method (BaseURL (config c1) @ path) = None \<and>
         Do E (sends (trace c1)) (domain_request method path bodyReader c1) = DoFails e \<longrightarrow>
       fst (doRequest E now method path marshal body unmarshal result c) =
         Inl (WrapError ''request failed: '' e)
       \<and> IsQPayError (Some (WrapError ''request failed: '' e)) = (None, False)
       \<and> Unwrap (WrapError ''request failed: '' e) = Some e"
    using doRequest_exchange(1) [of E now c _ marshal body _ "method" "path" _ unmarshal result]
    by simp
  have p3: "\<forall>c1 bodyReader status respBody.
         ensureToken E now c = (None, c1) \<and> marshal_body marshal body = Inr bodyReader \<and>
         NewRequest E method (BaseURL (config c1) @ path) = None \<and>
         Do E (sends (trace c1)) (domain_request method path bodyReader c1) = Response status respBody \<and>
         (status < 200 \<or> 300 \<le> status) \<longrightarrow>
       (\<exists>qErr. fst (doRequest E now method path marshal body unmarshal result c) =
                 Inl (ErrorPtr (Some qErr))
          \<and> StatusCode qErr = status \<and> RawBody qErr = respBody
          \<and> IsQPayError (Some (ErrorPtr (Some qErr))) = (Some qErr, True))"
  proof (intro allI impI)
    fix c1 bodyReader status respBody
    assume a: "ensureToken E now c = (None, c1) \<and> marshal_body marshal body = Inr bodyReader \<and>
         NewRequest E method (BaseURL (config c1) @ path) = None \<and>
         Do E (sends (trace c1)) (domain_request method path bodyReader c1) = Response status respBody \<and>
         (status < 200 \<or> 300 \<le> status)"
    then have "\<exists>qErr. fst (doRequest E now method path marshal body unmarshal result c) =
                    Inl (ErrorPtr (Some qErr)) \<and>
              StatusCode qErr = status \<and> RawBody qErr = respBody \<and>
              Code qErr = (case fst (Unmarshal_Error E respBody) of
                             None \<Rightarrow> StatusText E status
                           | Some v \<Rightarrow> if v = [] then StatusText E status else v) \<and>
              Message qErr = (case snd (Unmarshal_Error E respBody) of
                             None \<Rightarrow> respBody
                           | Some v \<Rightarrow> if v = [] then respBody else v)"
      by (intro doRequest_exchange(3) [of E now c c1 marshal body bodyReader "method" "path"]) simp_all
    then show "\<exists>qErr. fst (doRequest E now method path marshal body unmarshal result c) =
                 Inl (ErrorPtr (Some qErr))
          \<and> StatusCode qErr = status \<and> RawBody qErr = respBody
          \<and> IsQPayError (Some (ErrorPtr (Some qErr))) = (Some qErr, True)"
      by auto
  qed
  note p4 = GetPayment_error [of E now unmarshal resp paymentID c err]
  note p5 = CreateInvoice_error [of E now marshal unmarshal resp req c err]
  have p6: "(\<forall>c1 e. ensureToken E now c = (None, c1) \<and> marshal_body marshal body = Inl e \<longrightarrow>
       fst (doRequest E now method path marshal body unmarshal result c) =
         Inl (WrapError ''failed to marshal request body: '' e))"
    by (intro allI impI, elim conjE) (rule doRequest_marshal_fails)
  have p7: "(\<forall>c1 bodyReader e.
         ensureToken E now c = (None, c1) \<and> marshal_body marshal body = Inr bodyReader \<and>
         NewRequest E method (BaseURL (config c1) @ path) = Some e \<longrightarrow>
       fst (doRequest E now method path marshal body unmarshal result c) =
         Inl (WrapError ''failed to create request: '' e))"
    by (intro allI impI, elim conjE) (rule doRequest_create_fails)
  have p8: "(\<forall>c1 bodyReader status e.
         ensureToken E now c = (None, c1) \<and> marshal_body marshal body = Inr bodyReader \<and>
         NewRequest E method (BaseURL (config c1) @ path) = None \<and>
         Do E (sends (trace c1)) (domain_request method path bodyReader c1) = ReadFails status e \<longrightarrow>
       fst (doRequest E now method path marshal body unmarshal result c) =
         Inl (WrapError ''failed to read response body: '' e))"
    by (intro allI impI, elim conjE) (rule doRequest_exchange(2))
  have p9: "(\<forall>c1 bodyReader status respBody r e.
         ensureToken E now c = (None, c1) \<and> marshal_body marshal body = Inr bodyReader \<and>
         NewRequest E method (BaseURL (config c1) @ path) = None \<and>
         Do E (sends (trace c1)) (domain_request method path bodyReader c1) = Response status respBody \<and>
         200 \<le> status \<and> status < 300 \<and> respBody \<noteq> [] \<and> result = Some r \<and>
         unmarshal respBody r = Inl e \<longrightarrow>
       fst (doRequest E now method path marshal body unmarshal result c) =
         Inl (WrapError ''failed to unmarshal response: '' e))"
    by (intro allI impI, elim conjE) (rule doRequest_unmarshal_fails)
  show ?thesis
    by (intro conjI) (fact p1 p2 p3 p4 p5 p6 p7 p8 p9)+
qed


theorem doRequest_error_propagation_witness:
  "ensureToken_reuse (env_sample server_auth_401) 1700000000 client_expired =
     (False, emit [Lock, Read F_accessToken, Read F_expiresAt, Read F_refreshToken,
        Read F_refreshExpiresAt, Read F_refreshToken, Unlock, Send (refresh_request client_expired)]
        client_expired)
   \<and> fst (getTokenRequest (env_sample server_auth_401)
        (emit [Lock, Read F_accessToken, Read F_expiresAt, Read F_refreshToken,
           Read F_refreshExpiresAt, Read F_refreshToken, Unlock,
           Send (refresh_request client_expired)] client_expired))
       = Inl (ErrorPtr (Some error_401))
   \<and> fst (doRequest (env_sample server_auth_401) 1700000000 ''GET'' ''/v2/payment/p1''
          marshal_nil None Unmarshal_raw (Some []) client_expired)
       = Inl (WrapError ''failed to get token: '' (ErrorPtr (Some error_401)))
   \<and> fst (GetPayment (env_sample server_auth_401) 1700000000 Unmarshal_raw [] ''p1'' client_expired)
       = Inl (WrapError ''failed to get token: '' (ErrorPtr (Some error_401)))
   \<and> fst (doRequest (env_sample server_down) 1700000000 ''GET'' ''/v2/payment/p1''
          marshal_nil None Unmarshal_raw (Some []) client_valid)
       = Inl (WrapError ''request failed: '' (OtherError ''connection refused''))
   \<and> fst (doRequest (env_sample server_404) 1700000000 ''GET'' ''/v2/payment/p1''
          marshal_nil None Unmarshal_raw (Some []) client_valid)
       = Inl (ErrorPtr (Some error_404))
   \<and> IsQPayError (Some (ErrorPtr (Some error_404))) = (Some error_404, True)"
proof -
  let ?get = "\<lambda>E c. doRequest E 1700000000 ''GET'' ''/v2/payment/p1''
          marshal_nil None Unmarshal_raw (Some []) c"
  let ?c1 = "emit [Lock, Read F_accessToken, Read F_expiresAt, Unlock] client_valid"
  note auth = doRequest_error_propagation [of "env_sample server_auth_401" 1700000000
      client_expired "''GET''" "''/v2/payment/p1''" marshal_nil None Unmarshal_raw "Some []"
      "[]" "''p1''" "WrapError ''failed to get token: '' (ErrorPtr (Some error_401))"]
  note down = doRequest_error_propagation [of "env_sample server_down" 1700000000
      client_valid "''GET''" "''/v2/payment/p1''" marshal_nil None Unmarshal_raw "Some []"]
  note auth1 = auth [THEN conjunct1, rule_format]
  note auth4 = auth [THEN conjunct2, THEN conjunct2, THEN conjunct2, THEN conjunct1]
  note down2 = down [THEN conjunct2, THEN conjunct1, rule_format]
  have a: "fst (?get (env_sample server_auth_401) client_expired)
      = Inl (WrapError ''failed to get token: '' (ErrorPtr (Some error_401)))"
    using auth1 [OF conjI [OF server_auth_401_reuse server_auth_401_auth]] by (rule conjunct1)
  have b: "fst (GetPayment (env_sample server_auth_401) 1700000000 Unmarshal_raw [] ''p1''
      client_expired) = Inl (WrapError ''failed to get token: '' (ErrorPtr (Some error_401)))"
    using auth4 a by simp
  have pre: "ensureToken (env_sample server_down) 1700000000 client_valid = (None, ?c1)"
    "marshal_body marshal_nil None = Inr None"
    "NewRequest (env_sample server_down) ''GET'' (BaseURL (config ?c1) @ ''/v2/payment/p1'') = None"
    by (simp_all add: client_valid_ensureToken marshal_body_def env_sample_def)
  have c: "fst (?get (env_sample server_down) client_valid)
      = Inl (WrapError ''request failed: '' (OtherError ''connection refused''))"
    using down2 [OF conjI [OF pre(1) conjI [OF pre(2) conjI [OF pre(3) server_down_GetPayment]]]]
    by (rule conjunct1)
  from a b c show ?thesis
    by (simp add: server_auth_401_reuse server_auth_401_auth server_404_GetPayment)
qed

text \<open>
  Claim C6 at the refresh path. \<open>doRequest\<close> and \<open>doBasicAuthRequest\<close> give the error of
  a response outside 200..299 the status text as \<open>Code\<close> and the body as \<open>Message\<close> where
  the decoder left them empty (lemmas \<open>doRequest_exchange\<close> and \<open>doBasicAuthRequest_error\<close>
  above), and all three paths put status and body into \<open>StatusCode\<close> and \<open>RawBody\<close>. The
  refresh path applies no defaults (lemma \<open>doRefreshTokenHTTP_error\<close>): for a plain-text
  500 \<open>RefreshToken\<close> returns an error with empty \<open>Code\<close> and empty \<open>Message\<close>, where
  \<open>GetToken\<close> returns the defaults for the same response.
\<close>

theorem RefreshToken_error_without_defaults:
  "fst (Client_RefreshToken (env_sample server_500) client_valid)
     = Inl (ErrorPtr (Some \<lparr>StatusCode = 500, Code = [], Message = [],
              RawBody = ''Internal Server Error''\<rparr>))
   \<and> StatusText (env_sample server_500) 500 = ''Internal Server Error''
   \<and> Unmarshal_Error (env_sample server_500) ''Internal Server Error'' = (None, None)
   \<and> fst (GetToken (env_sample server_500) client_valid)
     = Inl (ErrorPtr (Some \<lparr>StatusCode = 500, Code = ''Internal Server Error'',
              Message = ''Internal Server Error'', RawBody = ''Internal Server Error''\<rparr>))"
  by (simp add: Client_RefreshToken_def GetToken_def sample_defs step_defs emit_def)

subsection \<open>The locking discipline\<close>

lemma discipline_append:
  "discipline held (xs @ ys) =
     (case discipline held xs of None \<Rightarrow> None | Some held' \<Rightarrow> discipline held' ys)"
  by (induction held xs rule: discipline.induct) simp_all

lemma discipline_emit:
  "discipline False (trace c) = Some False \<Longrightarrow> discipline False es = Some False \<Longrightarrow>
     discipline False (trace (emit es c)) = Some False"
  by (simp add: discipline_append)

lemma discipline_doRefreshTokenHTTP:
  "discipline False (trace c) = Some False \<Longrightarrow>
     discipline False (trace (snd (doRefreshTokenHTTP E rt c))) = Some False"
  by (simp add: doRefreshTokenHTTP_snd discipline_append)

lemma discipline_getTokenRequest:
  "discipline False (trace c) = Some False \<Longrightarrow>
     discipline False (trace (snd (getTokenRequest E c))) = Some False"
  by (simp add: getTokenRequest_snd discipline_append)

lemma discipline_ensureToken_reuse:
  assumes "discipline False (trace c) = Some False"
  shows "discipline False (trace (snd (ensureToken_reuse E now c))) = Some False"
proof (cases "access_fresh now c")
  case True
  with assms show ?thesis
    by (simp add: ensureToken_reuse_fresh discipline_append)
next
  case stale: False
  show ?thesis
  proof (cases "canRefresh now c")
    case False
    with stale assms show ?thesis
      by (simp add: ensureToken_reuse_stale_norefresh discipline_append)
  next
    case True
    let ?c2 = "emit (pre_refresh c) c"
    have c2: "discipline False (trace ?c2) = Some False"
      using assms by (simp add: discipline_append pre_refresh_def)
    obtain r c3 where d: "doRefreshTokenHTTP E (refreshToken c) ?c2 = (r, c3)"
      by (cases "doRefreshTokenHTTP E (refreshToken c) ?c2")
    have c3: "discipline False (trace c3) = Some False"
      using discipline_doRefreshTokenHTTP [OF c2, of E "refreshToken c"] d by simp
    from stale True d c3 show ?thesis
      by (cases r) (simp_all add: ensureToken_reuse_refresh discipline_append)
  qed
qed

lemma discipline_ensureToken:
  assumes "discipline False (trace c) = Some False"
  shows "discipline False (trace (snd (ensureToken E now c))) = Some False"
proof -
  obtain b c' where r: "ensureToken_reuse E now c = (b, c')"
    by (cases "ensureToken_reuse E now c")
  have c': "discipline False (trace c') = Some False"
    using discipline_ensureToken_reuse [OF assms, of E now] r by simp
  show ?thesis
  proof (cases b)
    case True
    with r c' show ?thesis by (simp add: ensureToken_def)
  next
    case False
    obtain g c4 where g: "getTokenRequest E c' = (g, c4)"
      by (cases "getTokenRequest E c'")
    have "discipline False (trace c4) = Some False"
      using discipline_getTokenRequest [OF c', of E] g by simp
    with r False g show ?thesis
      by (cases g) (simp_all add: ensureToken_def discipline_append)
  qed
qed

lemma discipline_GetToken:
  assumes "discipline False (trace c) = Some False"
  shows "discipline False (trace (snd (GetToken E c))) = Some False"
proof -
  obtain g c4 where g: "getTokenRequest E c = (g, c4)"
    by (cases "getTokenRequest E c")
  have "discipline False (trace c4) = Some False"
    using discipline_getTokenRequest [OF assms, of E] g by simp
  with g show ?thesis
    by (cases g) (simp_all add: GetToken_def discipline_append)
qed

lemma discipline_Client_RefreshToken:
  assumes "discipline False (trace c) = Some False"
  shows "discipline False (trace (snd (Client_RefreshToken E c))) = Some False"
proof -
  let ?c1 = "emit [Lock, Read F_refreshToken, Unlock] c"
  have c1: "discipline False (trace ?c1) = Some False"
    using assms by (simp add: discipline_append)
  obtain r c3 where d: "doRefreshTokenHTTP E (refreshToken c) ?c1 = (r, c3)"
    by (cases "doRefreshTokenHTTP E (refreshToken c) ?c1")
  have "discipline False (trace c3) = Some False"
    using discipline_doRefreshTokenHTTP [OF c1, of E "refreshToken c"] d by simp
  with d show ?thesis
    by (cases r) (simp_all add: Client_RefreshToken_def Let_def discipline_append)
qed

lemma doRequest_breaks_discipline:
  assumes "discipline False (trace c) = Some False"
    and "ensureToken E now c = (None, c1)"
    and "marshal_body marshal body = Inr bodyReader"
    and "NewRequest E method (BaseURL (config c1) @ path) = None"
  shows "discipline False (trace (snd (doRequest E now method path marshal body unmarshal result c)))
           = None"
proof -
  have "discipline False (trace c1) = Some False"
    using discipline_ensureToken [OF assms(1), of E now] assms(2) by simp
  then show ?thesis
    by (simp add: doRequest_exchange(4) [OF assms(2,3,4)] discipline_append)
qed


text \<open>
  Claim C9 at \<open>doRequest\<close>. \<open>ensureToken\<close>, \<open>GetToken\<close> and \<open>RefreshToken\<close> keep the
  discipline: every read and write of a token field lies between \<^verbatim>\<open>Lock\<close> and \<^verbatim>\<open>Unlock\<close>,
  and every request is sent with the mutex released (lemmas \<open>discipline_ensureToken\<close>,
  \<open>discipline_GetToken\<close>, \<open>discipline_Client_RefreshToken\<close>). \<open>doRequest\<close> does
  not (lemma \<open>doRequest_breaks_discipline\<close>): after \<open>ensureToken\<close> has released the mutex
  it reads \<open>accessToken\<close> for the Authorization header without locking. The trace of
  \<open>GetPayment\<close> on a client with a valid token shows the read after the \<^verbatim>\<open>Unlock\<close>.
\<close>

theorem doRequest_reads_accessToken_unlocked:
  "trace (snd (GetPayment (env_sample server_ok) 1700000000 Unmarshal_raw [] ''p1'' client_valid))
     = [Lock, Read F_accessToken, Read F_expiresAt, Unlock,
        Read F_accessToken,
        Send \<lparr>Method = ''GET'', URL = ''http://srv/v2/payment/p1'', Body = None,
          Headers = [Set ''Content-Type'' ''application/json'',
                     Set ''Authorization'' ''Bearer access-abc'']\<rparr>]
   \<and> discipline False
       (trace (snd (GetPayment (env_sample server_ok) 1700000000 Unmarshal_raw [] ''p1'' client_valid)))
     = None
   \<and> discipline False [Lock, Read F_accessToken, Read F_expiresAt, Unlock] = Some False"
  by (simp add: request_defs sample_defs step_defs)


end
